theory Spec2Isabelle
  imports Complex_Main "HOL-Library.Word" "HOL-Library.Sublist"
begin

section \<open>JavaScript strings and values\<close>

text \<open>
  A JavaScript string is a sequence of 16-bit code units. \<open>js\<close> embeds the
  ASCII and Latin-1 literals of the source.
\<close>

type_synonym code_unit = "16 word"
type_synonym jsstring = "code_unit list"

definition js :: "string \<Rightarrow> jsstring" where
  "js cs = map (\<lambda>c. word_of_nat (of_char c)) cs"

text \<open>
  Numbers: the values a double can take, finite ones as the rational they denote
  (\<open>Finite 0\<close> is \<open>+0\<close>). The program never computes with them; it tests them for
  truthiness and compares them.
\<close>

datatype jsnumber = NaN | PosInfinity | NegInfinity | NegZero | Finite rat

text \<open>
  Values. Arrays and objects carry the identity of the object (its reference), since
  \<open>===\<close> and \<open>Set\<close> membership compare objects by reference and not by content.
  An object's own properties are an association list.
\<close>

datatype jsvalue =
    JUndefined
  | JNull
  | JBool bool
  | JNum jsnumber
  | JStr jsstring
  | JArr nat "jsvalue list"
  | JObj nat "(jsstring \<times> jsvalue) list"

fun is_zero_or_nan :: "jsnumber \<Rightarrow> bool" where
  "is_zero_or_nan NaN = True"
| "is_zero_or_nan NegZero = True"
| "is_zero_or_nan (Finite q) = (q = 0)"
| "is_zero_or_nan _ = False"

text \<open>ToBoolean, as \<open>!x\<close> and \<open>x || y\<close> use it.\<close>

fun truthy :: "jsvalue \<Rightarrow> bool" where
  "truthy JUndefined = False"
| "truthy JNull = False"
| "truthy (JBool b) = b"
| "truthy (JNum n) = (\<not> is_zero_or_nan n)"
| "truthy (JStr s) = (s \<noteq> [])"
| "truthy (JArr r vs) = True"
| "truthy (JObj r ps) = True"

text \<open>Equality of numbers up to the sign of zero, with \<open>NaN\<close> equal to itself or not.\<close>

fun number_equal :: "bool \<Rightarrow> jsnumber \<Rightarrow> jsnumber \<Rightarrow> bool" where
  "number_equal nan_eq NaN y = (nan_eq \<and> y = NaN)"
| "number_equal nan_eq x NaN = False"
| "number_equal nan_eq x y =
     ((if x = NegZero then Finite 0 else x) = (if y = NegZero then Finite 0 else y))"

text \<open>SameValueZero (\<open>Set\<close> membership) and IsStrictlyEqual (\<open>===\<close>).\<close>

fun value_equal :: "bool \<Rightarrow> jsvalue \<Rightarrow> jsvalue \<Rightarrow> bool" where
  "value_equal nan_eq JUndefined JUndefined = True"
| "value_equal nan_eq JNull JNull = True"
| "value_equal nan_eq (JBool a) (JBool b) = (a = b)"
| "value_equal nan_eq (JNum a) (JNum b) = number_equal nan_eq a b"
| "value_equal nan_eq (JStr a) (JStr b) = (a = b)"
| "value_equal nan_eq (JArr r xs) (JArr r' ys) = (r = r')"
| "value_equal nan_eq (JObj r ps) (JObj r' qs) = (r = r')"
| "value_equal nan_eq _ _ = False"

definition SameValueZero :: "jsvalue \<Rightarrow> jsvalue \<Rightarrow> bool" where
  "SameValueZero x y = value_equal True x y"

definition strict_equals :: "jsvalue \<Rightarrow> jsvalue \<Rightarrow> bool" where
  "strict_equals x y = value_equal False x y"

text \<open>
  \<open>source[key]\<close> for the keys this program reads (the role claim keys, the fields of
  a trip, \<open>picture\<close>, \<open>name\<close> and \<open>email\<close> of the user): none of them names an
  index or a built-in property of a string, number, boolean or array, so only an
  object's own properties answer. On \<open>null\<close> and \<open>undefined\<close> the access throws a
  TypeError: \<open>None\<close>.
\<close>

fun get_prop :: "jsvalue \<Rightarrow> jsstring \<Rightarrow> jsvalue option" where
  "get_prop JUndefined key = None"
| "get_prop JNull key = None"
| "get_prop (JObj r ps) key =
     Some (case map_of ps key of None \<Rightarrow> JUndefined | Some v \<Rightarrow> v)"
| "get_prop v key = Some JUndefined"

section \<open>String helpers of the platform\<close>

text \<open>\<open>String.prototype.split\<close> with a one-character separator.\<close>

fun split_str :: "code_unit \<Rightarrow> jsstring \<Rightarrow> jsstring list" where
  "split_str sep [] = [[]]"
| "split_str sep (c # cs) =
     (if c = sep then [] # split_str sep cs
      else (case split_str sep cs of
              [] \<Rightarrow> [[c]]
            | seg # segs \<Rightarrow> (c # seg) # segs))"

text \<open>\<open>s.replace(/a/g, "b")\<close> for single characters.\<close>

definition replace_all :: "code_unit \<Rightarrow> code_unit \<Rightarrow> jsstring \<Rightarrow> jsstring" where
  "replace_all a b s = map (\<lambda>c. if c = a then b else c) s"

text \<open>
  White space and line terminators of ECMAScript, which \<open>String.prototype.trim\<close>
  removes from both ends.
\<close>

definition is_js_whitespace :: "code_unit \<Rightarrow> bool" where
  "is_js_whitespace c =
     (c \<in> {0x09, 0x0A, 0x0B, 0x0C, 0x0D, 0x20, 0xA0, 0x1680, 0x2028, 0x2029,
            0x202F, 0x205F, 0x3000, 0xFEFF}
      \<or> (0x2000 \<le> c \<and> c \<le> 0x200A))"

definition trim :: "jsstring \<Rightarrow> jsstring" where
  "trim s = rev (dropWhile is_js_whitespace (rev (dropWhile is_js_whitespace s)))"

text \<open>\<open>Number.prototype.toString\<close> on a non-negative integer: its decimal digits.\<close>

fun decimal :: "nat \<Rightarrow> jsstring" where
  "decimal n =
     (if n < 10 then [word_of_nat (48 + n)]
      else decimal (n div 10) @ [word_of_nat (48 + n mod 10)])"

declare decimal.simps [simp del]

section \<open>Platform functions used by the token decoder\<close>

text \<open>\<open>const [, x] = xs\<close> and \<open>xs[i]\<close>: \<open>undefined\<close> (\<open>None\<close>) past the end.\<close>

definition element_at :: "'a list \<Rightarrow> nat \<Rightarrow> 'a option" where
  "element_at xs i = (if i < length xs then Some (xs ! i) else None)"

subsection \<open>\<open>atob\<close>\<close>

text \<open>
  \<open>atob\<close> is the forgiving-base64 decode of the WHATWG Infra standard: remove ASCII
  white space; if the length is a multiple of four, remove one or two trailing \<open>=\<close>;
  fail if the length is then 1 modulo 4 or a character is outside the alphabet; read
  six bits per character, and drop the bits left over at the end. Failure (\<open>None\<close>)
  is the InvalidCharacterError that \<open>atob\<close> throws. The result has one character
  per byte.
\<close>

definition is_ascii_whitespace :: "code_unit \<Rightarrow> bool" where
  "is_ascii_whitespace c = (c \<in> {0x09, 0x0A, 0x0C, 0x0D, 0x20})"

definition base64_value :: "code_unit \<Rightarrow> nat option" where
  "base64_value c =
     (let n = unat c in
      if 65 \<le> n \<and> n \<le> 90 then Some (n - 65)
      else if 97 \<le> n \<and> n \<le> 122 then Some (n - 71)
      else if 48 \<le> n \<and> n \<le> 57 then Some (n + 4)
      else if n = 43 then Some 62
      else if n = 47 then Some 63
      else None)"

definition strip_padding :: "jsstring \<Rightarrow> jsstring" where
  "strip_padding d =
     (if length d mod 4 = 0 \<and> d \<noteq> [] \<and> last d = 0x3D
      then (if butlast d \<noteq> [] \<and> last (butlast d) = 0x3D then butlast (butlast d)
            else butlast d)
      else d)"

fun sextets_to_bytes :: "nat list \<Rightarrow> nat list" where
  "sextets_to_bytes (a # b # c # d # rest) =
     [a * 4 + b div 16, (b mod 16) * 16 + c div 4, (c mod 4) * 64 + d]
       @ sextets_to_bytes rest"
| "sextets_to_bytes [a, b, c] = [a * 4 + b div 16, (b mod 16) * 16 + c div 4]"
| "sextets_to_bytes [a, b] = [a * 4 + b div 16]"
| "sextets_to_bytes _ = []"

definition atob :: "jsstring \<Rightarrow> jsstring option" where
  "atob data =
     (let d = strip_padding (filter (\<lambda>c. \<not> is_ascii_whitespace c) data) in
      if length d mod 4 = 1 then None
      else (case those (map base64_value d) of
              None \<Rightarrow> None
            | Some sextets \<Rightarrow> Some (map word_of_nat (sextets_to_bytes sextets))))"

subsection \<open>Percent-encoding every character\<close>

text \<open>
  \<open>n.toString(16)\<close> on a non-negative integer, \<open>padStart(2, "0")\<close>, and the
  expression of lines 24 to 27 that writes every character of the string as \<open>%hh\<close>.
\<close>

definition hex_digit :: "nat \<Rightarrow> code_unit" where
  "hex_digit n = word_of_nat (if n < 10 then 48 + n else 87 + n)"

fun toString16 :: "nat \<Rightarrow> jsstring" where
  "toString16 n =
     (if n < 16 then [hex_digit n]
      else toString16 (n div 16) @ [hex_digit (n mod 16)])"

declare toString16.simps [simp del]

definition padStart :: "nat \<Rightarrow> code_unit \<Rightarrow> jsstring \<Rightarrow> jsstring" where
  "padStart n fill s = replicate (n - length s) fill @ s"

definition percent_encoded :: "jsstring \<Rightarrow> jsstring" where
  "percent_encoded payload =
     concat (map (\<lambda>char. 0x25 # padStart 2 0x30 (toString16 (unat char))) payload)"

subsection \<open>\<open>decodeURIComponent\<close>\<close>

text \<open>
  The Decode operation of ECMA-262 with nothing preserved: a character other than
  \<open>%\<close> is copied; \<open>%hh\<close> below \<open>0x80\<close> is that character; a lead octet with two,
  three or four leading one bits is followed by one, two or three more escapes, and
  the octets must be the UTF-8 encoding of a code point, which is written in UTF-16.
  Anything else throws a URIError (\<open>None\<close>).
\<close>

definition hex_value :: "code_unit \<Rightarrow> nat option" where
  "hex_value c =
     (let n = unat c in
      if 48 \<le> n \<and> n \<le> 57 then Some (n - 48)
      else if 65 \<le> n \<and> n \<le> 70 then Some (n - 55)
      else if 97 \<le> n \<and> n \<le> 102 then Some (n - 87)
      else None)"

definition ParseHexOctet :: "code_unit \<Rightarrow> code_unit \<Rightarrow> nat option" where
  "ParseHexOctet h1 h2 =
     (case hex_value h1 of
        None \<Rightarrow> None
      | Some a \<Rightarrow> (case hex_value h2 of None \<Rightarrow> None | Some b \<Rightarrow> Some (16 * a + b)))"

text \<open>The number of leading one bits of an octet.\<close>

definition leading_ones :: "nat \<Rightarrow> nat" where
  "leading_ones B =
     (if B < 0x80 then 0 else if B < 0xC0 then 1 else if B < 0xE0 then 2
      else if B < 0xF0 then 3 else if B < 0xF8 then 4 else 5)"

definition is_continuation :: "nat \<Rightarrow> bool" where
  "is_continuation b = (0x80 \<le> b \<and> b < 0xC0)"

text \<open>
  The code point of a sequence of two to four octets, when the sequence is well-formed
  UTF-8: continuation octets, no overlong form, no surrogate, at most \<open>0x10FFFF\<close>.
\<close>

fun utf8_code_point :: "nat list \<Rightarrow> nat option" where
  "utf8_code_point [b0, b1] =
     (let V = (b0 mod 0x20) * 0x40 + b1 mod 0x40 in
      if is_continuation b1 \<and> 0x80 \<le> V then Some V else None)"
| "utf8_code_point [b0, b1, b2] =
     (let V = (b0 mod 0x10) * 0x1000 + (b1 mod 0x40) * 0x40 + b2 mod 0x40 in
      if is_continuation b1 \<and> is_continuation b2 \<and> 0x800 \<le> V
         \<and> \<not> (0xD800 \<le> V \<and> V \<le> 0xDFFF)
      then Some V else None)"
| "utf8_code_point [b0, b1, b2, b3] =
     (let V = (b0 mod 0x08) * 0x40000 + (b1 mod 0x40) * 0x1000 + (b2 mod 0x40) * 0x40
              + b3 mod 0x40 in
      if is_continuation b1 \<and> is_continuation b2 \<and> is_continuation b3
         \<and> 0x10000 \<le> V \<and> V \<le> 0x10FFFF
      then Some V else None)"
| "utf8_code_point _ = None"

definition UTF16EncodeCodePoint :: "nat \<Rightarrow> jsstring" where
  "UTF16EncodeCodePoint cp =
     (if cp \<le> 0xFFFF then [word_of_nat cp]
      else [word_of_nat ((cp - 0x10000) div 0x400 + 0xD800),
            word_of_nat ((cp - 0x10000) mod 0x400 + 0xDC00)])"

text \<open>
  \<open>Decode octets j s\<close>: the octets of the code point being read, the number of
  continuation escapes still due, and the rest of the input.
\<close>

fun Decode :: "nat list \<Rightarrow> nat \<Rightarrow> jsstring \<Rightarrow> jsstring option" where
  "Decode octets 0 [] = Some []"
| "Decode octets 0 (c # rest) =
     (if c \<noteq> 0x25 then map_option ((#) c) (Decode [] 0 rest)
      else (case rest of
              h1 # h2 # rest' \<Rightarrow>
                (case ParseHexOctet h1 h2 of
                   None \<Rightarrow> None
                 | Some B \<Rightarrow>
                     if leading_ones B = 0
                     then map_option ((#) (word_of_nat B)) (Decode [] 0 rest')
                     else if leading_ones B = 1 \<or> leading_ones B > 4 then None
                     else Decode [B] (leading_ones B - 1) rest')
            | _ \<Rightarrow> None))"
| "Decode octets (Suc j) (c # h1 # h2 # rest) =
     (if c \<noteq> 0x25 then None
      else (case ParseHexOctet h1 h2 of
              None \<Rightarrow> None
            | Some b \<Rightarrow>
                if j = 0
                then (case utf8_code_point (octets @ [b]) of
                        None \<Rightarrow> None
                      | Some V \<Rightarrow>
                          map_option ((@) (UTF16EncodeCodePoint V)) (Decode [] 0 rest))
                else Decode (octets @ [b]) j rest))"
| "Decode octets (Suc j) s = None"

definition decodeURIComponent :: "jsstring \<Rightarrow> jsstring option" where
  "decodeURIComponent s = Decode [] 0 s"

section \<open>The token decoder\<close>

text \<open>What the \<open>try\<close> block can throw, by the call that throws it.\<close>

datatype decode_error = InvalidCharacterError | URIError | SyntaxError

text \<open>
  The \<open>try\<close> block of \<open>decodeJwtPayload\<close>: \<open>Inl\<close> is an exception on its way to the
  \<open>catch\<close>. \<open>JSON_parse\<close> is the platform's \<open>JSON.parse\<close>, \<open>None\<close> where it
  throws a SyntaxError.
\<close>

definition decodeJwtPayload_try :: "(jsstring \<Rightarrow> jsvalue option) \<Rightarrow> jsstring \<Rightarrow> decode_error + jsvalue" where
  "decodeJwtPayload_try JSON_parse token =
     (case element_at (split_str 0x2E token) 1 of
        None \<Rightarrow> Inr JNull
      | Some base64Payload \<Rightarrow>
          if base64Payload = [] then Inr JNull
          else
            (let normalized = replace_all 0x5F 0x2F (replace_all 0x2D 0x2B base64Payload) in
             case atob normalized of
               None \<Rightarrow> Inl InvalidCharacterError
             | Some payload \<Rightarrow>
                 (case decodeURIComponent (percent_encoded payload) of
                    None \<Rightarrow> Inl URIError
                  | Some json \<Rightarrow>
                      (case JSON_parse json of
                         None \<Rightarrow> Inl SyntaxError
                       | Some v \<Rightarrow> Inr v))))"

text \<open>
  \<open>decodeJwtPayload\<close>: how the call completes (\<open>Inl\<close>: an exception reaches the
  caller; \<open>Inr\<close>: the value returned) and what it wrote with \<open>console.error\<close>.
\<close>

definition decodeJwtPayload :: "(jsstring \<Rightarrow> jsvalue option) \<Rightarrow> jsstring \<Rightarrow> (decode_error + jsvalue) \<times> (jsstring \<times> decode_error) list" where
  "decodeJwtPayload JSON_parse token =
     (if token = [] then (Inr JNull, [])
      else (case decodeJwtPayload_try JSON_parse token of
              Inr v \<Rightarrow> (Inr v, [])
            | Inl err \<Rightarrow> (Inr JNull, [(js ''Erro ao decodificar token JWT:'', err)])))"

section \<open>Encodings, as their standards define them\<close>

text \<open>
  The encoder of RFC 4648, section 5 (the URL-safe alphabet), without padding, as
  RFC 7515 prescribes for the segments of a token: three octets give four characters,
  a remainder of two gives three, a remainder of one gives two.
\<close>

definition base64url_char :: "nat \<Rightarrow> code_unit" where
  "base64url_char n =
     word_of_nat (if n < 26 then 65 + n
                  else if n < 52 then 71 + n
                  else if n < 62 then n - 4
                  else if n = 62 then 45
                  else 95)"

fun base64url_sextets :: "nat list \<Rightarrow> nat list" where
  "base64url_sextets (x # y # z # rest) =
     [x div 4, (x mod 4) * 16 + y div 16, (y mod 16) * 4 + z div 64, z mod 64]
       @ base64url_sextets rest"
| "base64url_sextets [x, y] = [x div 4, (x mod 4) * 16 + y div 16, (y mod 16) * 4]"
| "base64url_sextets [x] = [x div 4, (x mod 4) * 16]"
| "base64url_sextets [] = []"

definition base64url_encode :: "nat list \<Rightarrow> jsstring" where
  "base64url_encode octets = map base64url_char (base64url_sextets octets)"

text \<open>
  Unicode scalar values, their UTF-8 encoding (RFC 3629), and their UTF-16 encoding,
  which is how a JavaScript string holds them.
\<close>

definition is_scalar_value :: "nat \<Rightarrow> bool" where
  "is_scalar_value cp = (cp < 0xD800 \<or> (0xE000 \<le> cp \<and> cp \<le> 0x10FFFF))"

definition utf8_encode :: "nat \<Rightarrow> nat list" where
  "utf8_encode cp =
     (if cp < 0x80 then [cp]
      else if cp < 0x800 then [0xC0 + cp div 0x40, 0x80 + cp mod 0x40]
      else if cp < 0x10000
      then [0xE0 + cp div 0x1000, 0x80 + (cp div 0x40) mod 0x40, 0x80 + cp mod 0x40]
      else [0xF0 + cp div 0x40000, 0x80 + (cp div 0x1000) mod 0x40,
            0x80 + (cp div 0x40) mod 0x40, 0x80 + cp mod 0x40])"

definition utf8_bytes :: "nat list \<Rightarrow> nat list" where
  "utf8_bytes cps = concat (map utf8_encode cps)"

definition utf16_string :: "nat list \<Rightarrow> jsstring" where
  "utf16_string cps = concat (map UTF16EncodeCodePoint cps)"

text \<open>A token of three segments: no segment contains the separating dot.\<close>

definition three_segments :: "jsstring \<Rightarrow> jsstring \<Rightarrow> jsstring \<Rightarrow> jsstring" where
  "three_segments header payload signature = header @ [0x2E] @ payload @ [0x2E] @ signature"

section \<open>Malformed tokens\<close>

text \<open>
  The number of segments of a token: one more than the number of its dots.
\<close>

definition segment_count :: "jsstring \<Rightarrow> nat" where
  "segment_count tok = Suc (count_list tok 0x2E)"

text \<open>
  The ways the payload of a token can be malformed. The payload segment is the second
  one; it is missing when the token has no dot, or nothing between its first dot and
  the next. The other three name the stage that rejects a payload segment that is
  present.
\<close>

definition payload_segment :: "jsstring \<Rightarrow> jsstring option" where
  "payload_segment tok = element_at (split_str 0x2E tok) 1"

definition payload_octets :: "jsstring \<Rightarrow> jsstring option" where
  "payload_octets tok =
     (case payload_segment tok of
        None \<Rightarrow> None
      | Some seg \<Rightarrow> atob (replace_all 0x5F 0x2F (replace_all 0x2D 0x2B seg)))"

definition payload_text :: "jsstring \<Rightarrow> jsstring option" where
  "payload_text tok =
     (case payload_octets tok of
        None \<Rightarrow> None
      | Some octets \<Rightarrow> decodeURIComponent (percent_encoded octets))"

definition payload_segment_missing :: "jsstring \<Rightarrow> bool" where
  "payload_segment_missing tok = (payload_segment tok = None \<or> payload_segment tok = Some [])"

definition invalid_base64 :: "jsstring \<Rightarrow> bool" where
  "invalid_base64 tok = (\<not> payload_segment_missing tok \<and> payload_octets tok = None)"

definition invalid_utf8 :: "jsstring \<Rightarrow> bool" where
  "invalid_utf8 tok =
     (\<not> payload_segment_missing tok \<and> payload_octets tok \<noteq> None \<and> payload_text tok = None)"

definition invalid_json :: "(jsstring \<Rightarrow> jsvalue option) \<Rightarrow> jsstring \<Rightarrow> bool" where
  "invalid_json JSON_parse tok =
     (\<not> payload_segment_missing tok \<and>
      (case payload_text tok of None \<Rightarrow> False | Some json \<Rightarrow> JSON_parse json = None))"

section \<open>Auxiliary notions for the proofs\<close>

text \<open>
  What the two \<open>replace\<close> calls do to one character, and the escape that line 26
  writes for one octet.
\<close>

definition normalize_char :: "code_unit \<Rightarrow> code_unit" where
  "normalize_char c =
     (let c' = (if c = 0x2D then 0x2B else c) in if c' = 0x5F then 0x2F else c')"

definition escape :: "nat \<Rightarrow> jsstring" where
  "escape b = [0x25, hex_digit (b div 16), hex_digit (b mod 16)]"

section \<open>Configuration and requests\<close>

text \<open>
  The two configuration values, at the defaults the source gives them (the build-time
  overrides \<open>VITE_API_BASE_URL\<close> and \<open>VITE_AUTH0_ROLE_NAMESPACE\<close> are not set).
\<close>

definition API_BASE_URL :: jsstring where
  "API_BASE_URL = js ''http://56.124.107.104:8080''"

definition ROLE_NAMESPACE :: jsstring where
  "ROLE_NAMESPACE = js ''https://dev-hb5tnbkuyk217lt2.us.auth0.com/roles''"

definition ROLE_CLAIM_KEYS :: "jsstring list" where
  "ROLE_CLAIM_KEYS = [ROLE_NAMESPACE, js ''https://schemas.auth0.com/roles'', js ''roles'']"

definition ADMIN_ROLE :: jsvalue where
  "ADMIN_ROLE = JStr (js ''admin'')"

text \<open>A call of \<open>fetch\<close>: what goes on the wire.\<close>

record request =
  req_method :: jsstring
  req_url :: jsstring
  req_headers :: "(jsstring \<times> jsstring) list"
  req_body :: "jsstring option"

text \<open>
  What the program reads of a \<open>Response\<close>: \<open>res.ok\<close>, \<open>res.status\<close>, and how
  \<open>res.text()\<close> and \<open>res.json()\<close> settle (\<open>Inl m\<close>: rejected with an error
  whose message is \<open>m\<close>).
\<close>

record response =
  res_ok :: bool
  res_status :: nat
  res_text :: "jsstring + jsstring"
  res_json :: "jsstring + jsvalue"

text \<open>How \<open>fetch\<close> settles: rejected with an error of that message, or a response.\<close>

type_synonym fetch_outcome = "jsstring + response"

section \<open>The component's state\<close>

record app_state =
  viagens :: "jsvalue list"
  loading :: bool
  error :: "jsstring option"
  submitting :: bool
  deletingId :: jsvalue
  token :: jsstring
  origem :: jsstring
  destino :: jsstring
  descricao :: jsstring
  modoTransporte :: jsstring

text \<open>The initial values of the \<open>useState\<close> calls.\<close>

definition initial_state :: app_state where
  "initial_state =
     \<lparr>viagens = [], loading = False, error = None, submitting = False,
      deletingId = JNull, token = [], origem = [], destino = [], descricao = [],
      modoTransporte = []\<rparr>"

text \<open>The body sent by create, before \<open>JSON.stringify\<close>.\<close>

record viagem_dto =
  origemNome :: jsstring
  destinoNome :: jsstring
  descricao_dto :: "jsstring option"
  modoTransporte_dto :: jsstring

section \<open>Token refresh and list\<close>

text \<open>
  Every asynchronous function is split where it first awaits the network: the part up
  to the call (it reads the values of the render it was created in and may issue a
  request) and the continuation, which runs on the state of the moment the call
  settles. The function as a whole is their composition.

  \<open>refreshToken\<close>: the continuation of \<open>await getAccessTokenSilently()\<close>. It gives
  the new state, the token returned, and what went to \<open>console.error\<close>.
\<close>

definition refreshToken :: "jsstring + jsstring \<Rightarrow> app_state \<Rightarrow> app_state \<times> jsstring \<times> jsstring list" where
  "refreshToken outcome s =
     (case outcome of
        Inr accessToken \<Rightarrow> (s\<lparr>token := accessToken\<rparr>, accessToken, [])
      | Inl err \<Rightarrow>
          (s\<lparr>error := Some (js ''N'' @ [0xE3] @ js ''o foi poss'' @ [0xED]
                 @ js ''vel recuperar o token de acesso.'')\<rparr>,
           [], [err]))"

definition bearer :: "jsstring \<Rightarrow> jsstring \<times> jsstring" where
  "bearer t = (js ''Authorization'', js ''Bearer '' @ t)"

definition fetchViagens_begin :: "jsstring option \<Rightarrow> app_state \<Rightarrow> app_state \<times> request option" where
  "fetchViagens_begin providedToken s =
     (let activeToken = (case providedToken of None \<Rightarrow> token s | Some t \<Rightarrow> t) in
      if activeToken = [] then (s, None)
      else (s\<lparr>loading := True, error := None\<rparr>,
            Some \<lparr>req_method = js ''GET'', req_url = API_BASE_URL @ js ''/viagens'',
                  req_headers = [bearer activeToken], req_body = None\<rparr>))"

definition fetchViagens_end :: "fetch_outcome \<Rightarrow> app_state \<Rightarrow> app_state" where
  "fetchViagens_end outcome s =
     (case outcome of
        Inl msg \<Rightarrow> s\<lparr>error := Some msg, loading := False\<rparr>
      | Inr res \<Rightarrow>
          if \<not> res_ok res
          then s\<lparr>error := Some (js ''Erro ao carregar: '' @ decimal (res_status res)),
                 loading := False\<rparr>
          else (case res_json res of
                  Inl msg \<Rightarrow> s\<lparr>error := Some msg, loading := False\<rparr>
                | Inr data \<Rightarrow>
                    s\<lparr>viagens := (case data of JArr r vs \<Rightarrow> vs | _ \<Rightarrow> []),
                      loading := False\<rparr>))"

text \<open>The state after the whole call, and the requests it issued.\<close>

definition fetchViagens :: "jsstring option \<Rightarrow> fetch_outcome \<Rightarrow> app_state \<Rightarrow> app_state \<times> request list" where
  "fetchViagens providedToken outcome s =
     (case fetchViagens_begin providedToken s of
        (s', None) \<Rightarrow> (s', [])
      | (s', Some req) \<Rightarrow> (fetchViagens_end outcome s', [req]))"

section \<open>Create\<close>

definition validation_message :: jsstring where
  "validation_message =
     js ''Origem, destino e modo de transporte s'' @ [0xE3] @ js ''o obrigat'' @ [0xF3]
       @ js ''rios.''"

definition handleCreate_begin :: "(viagem_dto \<Rightarrow> jsstring) \<Rightarrow> app_state \<Rightarrow> app_state \<times> request option" where
  "handleCreate_begin JSON_stringify s =
     (if origem s = [] \<or> destino s = [] \<or> modoTransporte s = []
      then (s\<lparr>error := Some validation_message\<rparr>, None)
      else
        (let dto = \<lparr>origemNome = trim (origem s),
                    destinoNome = trim (destino s),
                    descricao_dto =
                      (if trim (descricao s) = [] then None else Some (trim (descricao s))),
                    modoTransporte_dto = trim (modoTransporte s)\<rparr>
         in (s\<lparr>error := None, submitting := True\<rparr>,
             Some \<lparr>req_method = js ''POST'', req_url = API_BASE_URL @ js ''/viagens'',
                   req_headers = [(js ''Content-Type'', js ''application/json''),
                                  bearer (token s)],
                   req_body = Some (JSON_stringify dto)\<rparr>)))"

definition handleCreate_end :: "fetch_outcome \<Rightarrow> app_state \<Rightarrow> app_state" where
  "handleCreate_end outcome s =
     (case outcome of
        Inl msg \<Rightarrow> s\<lparr>error := Some msg, submitting := False\<rparr>
      | Inr res \<Rightarrow>
          if \<not> res_ok res
          then (case res_text res of
                  Inl msg \<Rightarrow> s\<lparr>error := Some msg, submitting := False\<rparr>
                | Inr txt \<Rightarrow>
                    s\<lparr>error := Some (js ''Erro ao criar: '' @ decimal (res_status res)
                                      @ js '' '' @ txt),
                      submitting := False\<rparr>)
          else (case res_json res of
                  Inl msg \<Rightarrow> s\<lparr>error := Some msg, submitting := False\<rparr>
                | Inr created \<Rightarrow>
                    s\<lparr>viagens := created # viagens s, origem := [], destino := [],
                      descricao := [], modoTransporte := [], submitting := False\<rparr>))"

definition handleCreate :: "(viagem_dto \<Rightarrow> jsstring) \<Rightarrow> fetch_outcome \<Rightarrow> app_state \<Rightarrow> app_state \<times> request list" where
  "handleCreate JSON_stringify outcome s =
     (case handleCreate_begin JSON_stringify s of
        (s', None) \<Rightarrow> (s', [])
      | (s', Some req) \<Rightarrow> (handleCreate_end outcome s', [req]))"

section \<open>Roles\<close>

text \<open>
  \<open>extractRolesFromSource\<close>. The guard \<open>!source\<close> keeps \<open>null\<close> and \<open>undefined\<close>
  away from the property access, so the access never throws there
  (\<open>get_prop_truthy\<close> below); \<open>flatMap\<close> appends the elements of each array, one
  level deep.
\<close>

definition extractRolesFromSource :: "jsvalue \<Rightarrow> jsvalue list" where
  "extractRolesFromSource source =
     (if \<not> truthy source then []
      else concat (map (\<lambda>key. case get_prop source key of
                                 Some (JArr r vs) \<Rightarrow> vs
                               | _ \<Rightarrow> [])
                       ROLE_CLAIM_KEYS))"

text \<open>
  A \<open>Set\<close> is the list of its elements in insertion order; \<open>has\<close> and \<open>add\<close>
  compare with SameValueZero, and \<open>add\<close> stores \<open>-0\<close> as \<open>+0\<close>. The constructor
  adds the elements of its argument one by one.
\<close>

definition Set_has :: "jsvalue list \<Rightarrow> jsvalue \<Rightarrow> bool" where
  "Set_has s v = (\<exists>x \<in> set s. SameValueZero x v)"

definition canonical_key :: "jsvalue \<Rightarrow> jsvalue" where
  "canonical_key v = (if v = JNum NegZero then JNum (Finite 0) else v)"

definition Set_add :: "jsvalue list \<Rightarrow> jsvalue \<Rightarrow> jsvalue list" where
  "Set_add s v = (if Set_has s v then s else s @ [canonical_key v])"

definition new_Set :: "jsvalue list \<Rightarrow> jsvalue list" where
  "new_Set xs = foldl Set_add [] xs"

definition roles :: "jsvalue \<Rightarrow> jsvalue \<Rightarrow> jsvalue list" where
  "roles payload user =
     (let fromToken = extractRolesFromSource payload;
          fromUser = extractRolesFromSource user
      in new_Set (fromToken @ fromUser))"

definition isAdmin :: "jsvalue \<Rightarrow> jsvalue \<Rightarrow> bool" where
  "isAdmin payload user = Set_has (roles payload user) ADMIN_ROLE"

section \<open>Delete\<close>

text \<open>
  The updater \<open>prev.filter((viagem) => viagem.id !== id)\<close>. It throws (\<open>None\<close>) when
  an entry of the list is \<open>null\<close> or \<open>undefined\<close>.
\<close>

fun remove_viagem :: "jsvalue \<Rightarrow> jsvalue list \<Rightarrow> jsvalue list option" where
  "remove_viagem vid [] = Some []"
| "remove_viagem vid (viagem # rest) =
     (case get_prop viagem (js ''id'') of
        None \<Rightarrow> None
      | Some x \<Rightarrow>
          (case remove_viagem vid rest of
             None \<Rightarrow> None
           | Some kept \<Rightarrow> Some (if strict_equals x vid then kept else viagem # kept)))"

text \<open>
  \<open>handleDelete\<close>, closed over \<open>isAdmin\<close> and the token of its render. \<open>ToString\<close>
  is the platform's conversion of the identifier inside the template literal.
\<close>

definition handleDelete_begin :: "(jsvalue \<Rightarrow> jsstring) \<Rightarrow> bool \<Rightarrow> jsvalue \<Rightarrow> app_state \<Rightarrow> app_state \<times> request option" where
  "handleDelete_begin ToString is_admin vid s =
     (if \<not> is_admin then (s, None)
      else (s\<lparr>error := None, deletingId := vid\<rparr>,
            Some \<lparr>req_method = js ''DELETE'',
                  req_url = API_BASE_URL @ js ''/viagens/'' @ ToString vid,
                  req_headers = [bearer (token s)], req_body = None\<rparr>))"

text \<open>
  The continuation. \<open>None\<close>: the list updater throws when React applies it, and the
  component fails to render.
\<close>

definition handleDelete_end :: "jsvalue \<Rightarrow> fetch_outcome \<Rightarrow> app_state \<Rightarrow> app_state option" where
  "handleDelete_end vid outcome s =
     (case outcome of
        Inl msg \<Rightarrow> Some (s\<lparr>error := Some msg, deletingId := JNull\<rparr>)
      | Inr res \<Rightarrow>
          if \<not> res_ok res
          then (case res_text res of
                  Inl msg \<Rightarrow> Some (s\<lparr>error := Some msg, deletingId := JNull\<rparr>)
                | Inr txt \<Rightarrow>
                    Some (s\<lparr>error := Some (js ''Erro ao excluir: ''
                                             @ decimal (res_status res) @ js '' '' @ txt),
                            deletingId := JNull\<rparr>))
          else (case remove_viagem vid (viagens s) of
                  None \<Rightarrow> None
                | Some kept \<Rightarrow> Some (s\<lparr>viagens := kept, deletingId := JNull\<rparr>)))"

definition handleDelete :: "(jsvalue \<Rightarrow> jsstring) \<Rightarrow> bool \<Rightarrow> jsvalue \<Rightarrow> fetch_outcome \<Rightarrow> app_state \<Rightarrow> app_state option \<times> request list" where
  "handleDelete ToString is_admin vid outcome s =
     (case handleDelete_begin ToString is_admin vid s of
        (s', None) \<Rightarrow> (Some s', [])
      | (s', Some req) \<Rightarrow> (handleDelete_end vid outcome s', [req]))"

section \<open>What the component renders\<close>

text \<open>
  The element tree that \<open>ViagensApp\<close> returns, as far as it depends on the state:
  the static text and the inputs of the form are left out. A child written
  \<open>{c && <e/>}\<close> is \<open>None\<close> when \<open>c\<close> is \<open>false\<close>.
\<close>

record delete_button =
  btn_disabled :: bool
  btn_label :: jsstring
  btn_onClick :: jsvalue

record row_view =
  row_key :: jsvalue
  row_cells :: "jsvalue list"
  row_delete :: "delete_button option"

datatype list_view =
    CarregandoViagens
  | NenhumaViagem
  | Table "jsstring list" "row_view list"

record page_view =
  avatar :: "jsvalue + jsvalue \<times> jsvalue"
  user_name :: jsvalue
  user_email :: jsvalue
  role_pill :: "jsstring option"
  reload_button :: "bool \<times> jsstring"
  submit_button :: "bool \<times> jsstring"
  error_box :: "jsstring option"
  counter :: nat
  list_section :: list_view

datatype view = PageStatus | LoginContainer | Page page_view

text \<open>\<open>a ?? b\<close>.\<close>

definition coalesce :: "jsvalue \<Rightarrow> jsvalue \<Rightarrow> jsvalue" where
  "coalesce a b = (if a = JUndefined \<or> a = JNull then b else a)"

text \<open>
  \<open>viagem.descricao?.trim() || d\<close>, where \<open>d\<close> is the dash U+2014: the call
  throws (\<open>None\<close>) when the description is neither absent nor a string.
\<close>

fun descricao_cell :: "jsvalue \<Rightarrow> jsvalue option" where
  "descricao_cell JUndefined = Some (JStr [0x2014])"
| "descricao_cell JNull = Some (JStr [0x2014])"
| "descricao_cell (JStr d) = Some (JStr (if trim d = [] then [0x2014] else trim d))"
| "descricao_cell v = None"

text \<open>
  One row of the table, lines 310 to 329. Reading a property of a trip that is
  \<open>null\<close> or \<open>undefined\<close> throws (\<open>None\<close>).
\<close>

definition render_row :: "bool \<Rightarrow> jsvalue \<Rightarrow> jsvalue \<Rightarrow> row_view option" where
  "render_row is_admin deleting viagem =
     (case get_prop viagem (js ''id'') of
        None \<Rightarrow> None
      | Some vid \<Rightarrow>
     (case get_prop viagem (js ''origemNome'') of
        None \<Rightarrow> None
      | Some origem_cell \<Rightarrow>
     (case get_prop viagem (js ''destinoNome'') of
        None \<Rightarrow> None
      | Some destino_cell \<Rightarrow>
     (case get_prop viagem (js ''modoTransporte'') of
        None \<Rightarrow> None
      | Some modo_cell \<Rightarrow>
     (case get_prop viagem (js ''descricao'') of
        None \<Rightarrow> None
      | Some d \<Rightarrow>
     (case descricao_cell d of
        None \<Rightarrow> None
      | Some descricao_text \<Rightarrow>
          Some \<lparr>row_key = vid,
                 row_cells = [coalesce origem_cell (JStr (js ''-'')),
                              coalesce destino_cell (JStr (js ''-'')),
                              coalesce modo_cell (JStr (js ''-'')),
                              descricao_text],
                 row_delete =
                   (if is_admin
                    then Some \<lparr>btn_disabled = strict_equals deleting vid,
                               btn_label = (if strict_equals deleting vid
                                            then js ''Excluindo...'' else js ''Excluir''),
                               btn_onClick = vid\<rparr>
                    else None)\<rparr>))))))"

definition actions_label :: jsstring where
  "actions_label = js ''A'' @ [0xE7, 0xF5] @ js ''es''"

definition column_headers :: "bool \<Rightarrow> jsstring list" where
  "column_headers is_admin =
     [js ''Origem'', js ''Destino'', js ''Modo'', js ''Descri'' @ [0xE7, 0xE3] @ js ''o'']
       @ (if is_admin then [actions_label] else [])"

text \<open>The second card, lines 292 to 334.\<close>

definition render_list :: "bool \<Rightarrow> app_state \<Rightarrow> list_view option" where
  "render_list is_admin s =
     (if loading s then Some CarregandoViagens
      else if length (viagens s) = 0 then Some NenhumaViagem
      else (case those (map (render_row is_admin (deletingId s)) (viagens s)) of
              None \<Rightarrow> None
            | Some rows \<Rightarrow> Some (Table (column_headers is_admin) rows)))"

text \<open>
  The component function, lines 118 to 339, given what \<open>useAuth0\<close> reports. The
  hooks run first, so the token is decoded and the roles are derived in every render.
  \<open>None\<close>: the render throws.
\<close>

definition render :: "(jsstring \<Rightarrow> jsvalue option) \<Rightarrow> bool \<Rightarrow> bool \<Rightarrow> jsvalue \<Rightarrow> app_state \<Rightarrow> view option" where
  "render JSON_parse isLoading isAuthenticated user s =
     (case fst (decodeJwtPayload JSON_parse (token s)) of
        Inl err \<Rightarrow> None
      | Inr payload \<Rightarrow>
          if isLoading then Some PageStatus
          else if \<not> isAuthenticated then Some LoginContainer
          else
            (case get_prop user (js ''picture'') of
               None \<Rightarrow> None
             | Some picture \<Rightarrow>
            (case get_prop user (js ''name'') of
               None \<Rightarrow> None
             | Some name \<Rightarrow>
            (case get_prop user (js ''email'') of
               None \<Rightarrow> None
             | Some email \<Rightarrow>
            (case render_list (isAdmin payload user) s of
               None \<Rightarrow> None
             | Some trips \<Rightarrow>
                 Some (Page
                   \<lparr>avatar = (if truthy picture
                               then Inr (picture, coalesce name (JStr (js ''Usu'' @ [0xE1] @ js ''rio'')))
                               else Inl picture),
                    user_name = name,
                    user_email = email,
                    role_pill = (if isAdmin payload user then Some (js ''Administrador'')
                                 else None),
                    reload_button = (loading s, if loading s then js ''Atualizando...''
                                                else js ''Recarregar''),
                    submit_button = (submitting s, if submitting s then js ''Salvando...''
                                                   else js ''Salvar viagem''),
                    error_box = (case error s of
                                   None \<Rightarrow> None
                                 | Some m \<Rightarrow> if m = [] then None else Some m),
                    counter = length (viagens s),
                    list_section = trips\<rparr>))))))"

text \<open>
  What a view shows of the administrator-gated elements: the delete buttons of its
  rows, the header of the actions column, and the role pill.
\<close>

definition delete_buttons :: "view \<Rightarrow> delete_button list" where
  "delete_buttons v =
     (case v of
        Page pv \<Rightarrow>
          (case list_section pv of
             Table headers rows \<Rightarrow> List.map_filter row_delete rows
           | _ \<Rightarrow> [])
      | _ \<Rightarrow> [])"

definition has_actions_header :: "view \<Rightarrow> bool" where
  "has_actions_header v =
     (case v of
        Page pv \<Rightarrow>
          (case list_section pv of
             Table headers rows \<Rightarrow> actions_label \<in> set headers
           | _ \<Rightarrow> False)
      | _ \<Rightarrow> False)"

definition has_role_pill :: "view \<Rightarrow> bool" where
  "has_role_pill v = (case v of Page pv \<Rightarrow> role_pill pv \<noteq> None | _ \<Rightarrow> False)"

section \<open>The effect on the authentication status\<close>

text \<open>
  The synchronous part of the effect of lines 97 to 116: the state it leaves, and
  whether it started the asynchronous refresh-then-list sequence.
\<close>

definition auth_effect :: "bool \<Rightarrow> app_state \<Rightarrow> app_state \<times> bool" where
  "auth_effect isAuthenticated s =
     (if \<not> isAuthenticated then (s\<lparr>token := [], viagens := []\<rparr>, False)
      else (s, True))"

section \<open>The component over time\<close>

text \<open>
  The component between events: the authentication status of its last render, its
  state, the asynchronous sequences started by the effect that still await the token
  (each with its \<open>cancelled\<close> flag), and the number of list requests in flight.
\<close>

record component =
  isAuthenticated :: bool
  app :: app_state
  refreshing :: "bool list"
  listing :: nat

text \<open>
  One run of the effect, after a render in which one of its dependencies changed: the
  cleanup of the previous run sets its \<open>cancelled\<close> flag, then the body runs. When
  authenticated, the body starts a new sequence \<open>refreshToken\<close>, then \<open>fetchViagens\<close>.
\<close>

definition run_effect :: "component \<Rightarrow> component" where
  "run_effect c =
     (case auth_effect (isAuthenticated c) (app c) of
        (s, started) \<Rightarrow>
          c\<lparr>app := s,
            refreshing := map (\<lambda>cancelled. True) (refreshing c)
                          @ (if started then [False] else [])\<rparr>)"

text \<open>The component when it mounts with the given authentication status.\<close>

definition mount :: "bool \<Rightarrow> component" where
  "mount authenticated =
     run_effect \<lparr>isAuthenticated = authenticated, app = initial_state, refreshing = [],
                 listing = 0\<rparr>"

text \<open>
  What can happen next: the identity provider reports a status; the token call of a
  pending sequence settles; a list request in flight settles.
\<close>

datatype event =
    AuthStatus bool
  | TokenSettled nat "jsstring + jsstring"
  | ListSettled fetch_outcome

text \<open>
  \<open>None\<close>: the event cannot happen in this state. A changed status is a changed
  dependency of the effect, and so is a changed token, through \<open>fetchViagens\<close>, which
  is memoised on it. When the token call settles, \<open>refreshToken\<close> stores the token and
  the sequence goes on to \<open>fetchViagens(accessToken)\<close> unless it was cancelled or the
  token is empty; this happens before the render that the new token causes.
\<close>

fun step :: "event \<Rightarrow> component \<Rightarrow> component option" where
  "step (AuthStatus b) c =
     Some (if b = isAuthenticated c then c else run_effect (c\<lparr>isAuthenticated := b\<rparr>))"
| "step (TokenSettled i outcome) c =
     (if i < length (refreshing c)
      then
        (case refreshToken outcome (app c) of
           (s1, accessToken, logged) \<Rightarrow>
             (case (if \<not> refreshing c ! i \<and> accessToken \<noteq> []
                    then fetchViagens_begin (Some accessToken) s1
                    else (s1, None)) of
                (s2, req) \<Rightarrow>
                  (let c' = c\<lparr>app := s2,
                              refreshing := take i (refreshing c) @ drop (Suc i) (refreshing c),
                              listing := listing c + (if req = None then 0 else 1)\<rparr>
                   in Some (if token s2 \<noteq> token (app c) then run_effect c' else c'))))
      else None)"
| "step (ListSettled outcome) c =
     (if 0 < listing c
      then Some (c\<lparr>app := fetchViagens_end outcome (app c), listing := listing c - 1\<rparr>)
      else None)"

fun run :: "event list \<Rightarrow> component \<Rightarrow> component option" where
  "run [] c = Some c"
| "run (e # es) c = (case step e c of None \<Rightarrow> None | Some c' \<Rightarrow> run es c')"

section \<open>Example states\<close>

text \<open>A form as the user filled it in, with a token present.\<close>

definition form_state :: "string \<Rightarrow> string \<Rightarrow> string \<Rightarrow> string \<Rightarrow> app_state" where
  "form_state a b c d =
     initial_state\<lparr>token := js ''t'', origem := js a, destino := js b,
                   descricao := js c, modoTransporte := js d\<rparr>"


text \<open>
  Decoded token claims with an array of roles under the namespace key, and a user
  profile with an array under \<open>roles\<close> and a string, not an array, under the
  Auth0 schema key.
\<close>

definition token_claims :: jsvalue where
  "token_claims =
     JObj 1 [(js ''sub'', JStr (js ''auth0|1'')),
             (ROLE_NAMESPACE, JArr 2 [JStr (js ''admin''), JStr (js ''editor'')])]"

definition user_profile :: jsvalue where
  "user_profile =
     JObj 3 [(js ''name'', JStr (js ''Ana'')),
             (js ''roles'', JArr 4 [JStr (js ''editor''), JStr (js ''viewer'')]),
             (js ''https://schemas.auth0.com/roles'', JStr (js ''admin''))]"

text \<open>
  A \<open>JSON.parse\<close> that knows two texts, \<open>{"n":"\<dots>?"}\<close> with U+00E9 in the
  string and \<open>{"a":1}\<close>, and rejects every other; and one that rejects everything.
\<close>

definition parse_example :: "jsstring \<Rightarrow> jsvalue option" where
  "parse_example s =
     (if s = [123, 34, 110, 34, 58, 34, 233, 63, 34, 125]
      then Some (JObj 1 [(js ''n'', JStr [233, 63])])
      else if s = [123, 34, 97, 34, 58, 49, 125]
      then Some (JObj 2 [(js ''a'', JNum (Finite 1))])
      else None)"

definition parse_nothing :: "jsstring \<Rightarrow> jsvalue option" where
  "parse_nothing s = None"

text \<open>
  A session that ends while the list is being loaded: the token arrives, the list
  request starts, the status becomes unauthenticated, and then the list request is
  answered with one trip.
\<close>

definition one_trip :: jsvalue where
  "one_trip = JObj 11 [(js ''id'', JNum (Finite 1)), (js ''origemNome'', JStr (js ''Rio''))]"

definition logout_while_loading :: "event list" where
  "logout_while_loading =
     [TokenSettled 0 (Inr (js ''t'')),
      AuthStatus False,
      ListSettled (Inr \<lparr>res_ok = True, res_status = 200, res_text = Inr (js ''[...]''),
                         res_json = Inr (JArr 10 [one_trip])\<rparr>)]"

text \<open>The profile of an administrator, and a list of one trip that has been loaded.\<close>

definition admin_profile :: jsvalue where
  "admin_profile =
     JObj 20 [(js ''name'', JStr (js ''Ana'')), (js ''email'', JStr (js ''ana@example.org'')),
              (js ''roles'', JArr 21 [JStr (js ''admin'')])]"

definition loaded_state :: app_state where
  "loaded_state = initial_state\<lparr>token := js ''opaque'', viagens := [one_trip]\<rparr>"

definition empty_state :: app_state where
  "empty_state = initial_state\<lparr>token := js ''opaque''\<rparr>"

text \<open>Claims whose roles are numbers: both zeros and \<open>NaN\<close> twice.\<close>

definition numeric_claims :: jsvalue where
  "numeric_claims =
     JObj 6 [(js ''roles'', JArr 7 [JNum NegZero, JNum (Finite 0), JNum NaN, JNum NaN])]"

text \<open>
  The pages that go with them: the administrator with one trip, a user who is not an
  administrator with the same trip, and the administrator with no trips.
\<close>

definition trip_row :: "delete_button option \<Rightarrow> row_view" where
  "trip_row button =
     \<lparr>row_key = JNum (Finite 1),
      row_cells = [JStr (js ''Rio''), JStr (js ''-''), JStr (js ''-''), JStr [0x2014]],
      row_delete = button\<rparr>"

definition excluir :: delete_button where
  "excluir = \<lparr>btn_disabled = False, btn_label = js ''Excluir'', btn_onClick = JNum (Finite 1)\<rparr>"

definition admin_page :: "nat \<Rightarrow> list_view \<Rightarrow> view" where
  "admin_page n trips =
     Page \<lparr>avatar = Inl JUndefined, user_name = JStr (js ''Ana''),
           user_email = JStr (js ''ana@example.org''),
           role_pill = Some (js ''Administrador''),
           reload_button = (False, js ''Recarregar''),
           submit_button = (False, js ''Salvar viagem''),
           error_box = None, counter = n, list_section = trips\<rparr>"

definition member_page :: "nat \<Rightarrow> list_view \<Rightarrow> view" where
  "member_page n trips =
     Page \<lparr>avatar = Inl JUndefined, user_name = JStr (js ''Ana''),
           user_email = JUndefined, role_pill = None,
           reload_button = (False, js ''Recarregar''),
           submit_button = (False, js ''Salvar viagem''),
           error_box = None, counter = n, list_section = trips\<rparr>"

section \<open>Properties of list, create and delete\<close>

lemma trim_all_whitespace:
  "\<forall>c \<in> set s. is_js_whitespace c \<Longrightarrow> trim s = []"
  by (auto simp: trim_def dest: set_dropWhileD)

lemma decimal_403: "decimal 403 = js ''403''"
  by (simp add: decimal.simps js_def)

text \<open>
  Claim C6. The list operation does nothing (no request, the state as it was) whenever
  the effective token, the one provided or else the stored one, is empty. When the
  request is answered with success and the parsed body is not an array, the list
  becomes empty, no error message is set, and the loading flag is off again.
\<close>

theorem fetchViagens_contract:
  "((case providedToken of None \<Rightarrow> token s | Some t \<Rightarrow> t) = []
      \<longrightarrow> fetchViagens providedToken outcome s = (s, []))
   \<and> ((case providedToken of None \<Rightarrow> token s | Some t \<Rightarrow> t) \<noteq> []
        \<and> outcome = Inr res \<and> res_ok res \<and> res_json res = Inr data
        \<and> (\<forall>r vs. data \<noteq> JArr r vs)
      \<longrightarrow> viagens (fst (fetchViagens providedToken outcome s)) = []
          \<and> error (fst (fetchViagens providedToken outcome s)) = None
          \<and> loading (fst (fetchViagens providedToken outcome s)) = False)"
  by (cases data)
     (auto simp: fetchViagens_def fetchViagens_begin_def fetchViagens_end_def Let_def)

theorem fetchViagens_contract_witness:
  "fetchViagens None (Inl (js ''offline'')) (initial_state\<lparr>viagens := [JStr (js ''x'')]\<rparr>)
     = (initial_state\<lparr>viagens := [JStr (js ''x'')]\<rparr>, [])
   \<and> fetchViagens (Some []) (Inl (js ''offline'')) (initial_state\<lparr>token := js ''t''\<rparr>)
     = (initial_state\<lparr>token := js ''t''\<rparr>, [])
   \<and> viagens (fst (fetchViagens (Some (js ''t''))
        (Inr \<lparr>res_ok = True, res_status = 200, res_text = Inr (js ''{}''),
              res_json = Inr (JObj 1 [])\<rparr>)
        (initial_state\<lparr>viagens := [JStr (js ''x'')]\<rparr>))) = []
   \<and> error (fst (fetchViagens (Some (js ''t''))
        (Inr \<lparr>res_ok = True, res_status = 200, res_text = Inr (js ''{}''),
              res_json = Inr (JObj 1 [])\<rparr>)
        (initial_state\<lparr>viagens := [JStr (js ''x'')]\<rparr>))) = None"
  using
    fetchViagens_contract [where providedToken = None
      and s = "initial_state\<lparr>viagens := [JStr (js ''x'')]\<rparr>"
      and outcome = "Inl (js ''offline'')"]
    fetchViagens_contract [where providedToken = "Some []"
      and s = "initial_state\<lparr>token := js ''t''\<rparr>"
      and outcome = "Inl (js ''offline'')"]
    fetchViagens_contract [where providedToken = "Some (js ''t'')"
      and s = "initial_state\<lparr>viagens := [JStr (js ''x'')]\<rparr>"
      and outcome = "Inr \<lparr>res_ok = True, res_status = 200, res_text = Inr (js ''{}''),
            res_json = Inr (JObj 1 [])\<rparr>"
      and res = "\<lparr>res_ok = True, res_status = 200, res_text = Inr (js ''{}''),
            res_json = Inr (JObj 1 [])\<rparr>"
      and data = "JObj 1 []"]
  by (simp add: initial_state_def js_def)

text \<open>
  Claim C7. When origin, destination or transport mode is empty, create issues no
  request and leaves the validation message as the error shown. When all three are
  non-empty, exactly one request is issued and its body is the serialisation of the
  trimmed origin, destination and transport mode, with the description trimmed, or
  null when nothing is left of it.
\<close>

theorem handleCreate_validation:
  "(origem s = [] \<or> destino s = [] \<or> modoTransporte s = []
      \<longrightarrow> handleCreate JSON_stringify outcome s = (s\<lparr>error := Some validation_message\<rparr>, [])
          \<and> validation_message \<noteq> [])
   \<and> (origem s \<noteq> [] \<and> destino s \<noteq> [] \<and> modoTransporte s \<noteq> []
      \<longrightarrow> (\<exists>req. snd (handleCreate JSON_stringify outcome s) = [req]
            \<and> req_body req = Some (JSON_stringify
                 \<lparr>origemNome = trim (origem s),
                  destinoNome = trim (destino s),
                  descricao_dto = (if trim (descricao s) = [] then None
                                   else Some (trim (descricao s))),
                  modoTransporte_dto = trim (modoTransporte s)\<rparr>)))"
  by (auto simp: handleCreate_def handleCreate_begin_def Let_def validation_message_def js_def)

theorem handleCreate_validation_witness:
  "snd (handleCreate (\<lambda>dto. destinoNome dto) (Inl []) (form_state ''Rio'' '''' ''x'' ''bus'')) = []
   \<and> error (fst (handleCreate (\<lambda>dto. destinoNome dto) (Inl [])
        (form_state ''Rio'' '''' ''x'' ''bus''))) = Some validation_message
   \<and> (\<exists>req. snd (handleCreate (\<lambda>dto. destinoNome dto) (Inl [])
          (form_state '' Rio'' ''Recife '' ''  '' ''bus'')) = [req]
        \<and> req_body req = Some (js ''Recife''))"
  using
    handleCreate_validation [where s = "form_state ''Rio'' '''' ''x'' ''bus''"
      and JSON_stringify = "\<lambda>dto. destinoNome dto" and outcome = "Inl []"]
    handleCreate_validation [where s = "form_state '' Rio'' ''Recife '' ''  '' ''bus''"
      and JSON_stringify = "\<lambda>dto. destinoNome dto" and outcome = "Inl []"]
  by (simp add: form_state_def initial_state_def js_def trim_def is_js_whitespace_def)

text \<open>
  Claim C10. Validation looks at the fields as typed. An origin that is not empty and
  consists of white space only passes it, given a destination and a transport mode:
  a request is issued, and the origin in its body is the empty string.
\<close>

theorem handleCreate_whitespace_passes:
  assumes "origem s \<noteq> []" and "\<forall>c \<in> set (origem s). is_js_whitespace c"
    and "destino s \<noteq> []" and "modoTransporte s \<noteq> []"
  shows "\<exists>req. snd (handleCreate JSON_stringify outcome s) = [req]
           \<and> req_body req = Some (JSON_stringify
                 \<lparr>origemNome = [],
                  destinoNome = trim (destino s),
                  descricao_dto = (if trim (descricao s) = [] then None
                                   else Some (trim (descricao s))),
                  modoTransporte_dto = trim (modoTransporte s)\<rparr>)"
  using assms trim_all_whitespace [of "origem s"]
  by (auto simp: handleCreate_def handleCreate_begin_def Let_def)

theorem handleCreate_whitespace_passes_witness:
  "\<exists>req. snd (handleCreate (\<lambda>dto. origemNome dto) (Inl [])
            (form_state '' '' ''Rio'' '''' ''bus'')) = [req]
     \<and> req_body req = Some []"
  using handleCreate_whitespace_passes [where s = "form_state '' '' ''Rio'' '''' ''bus''"
      and JSON_stringify = "\<lambda>dto. origemNome dto" and outcome = "Inl []"]
  by (simp add: form_state_def initial_state_def js_def is_js_whitespace_def)

text \<open>
  Claim C5. A delete request answered with a status that is not a success, and whose
  body text could be read, leaves the list as it was; the error shown is the prefix
  followed by the status code in decimal, a space and the body text, so it contains
  both.
\<close>

theorem handleDelete_failure:
  assumes "is_admin" and "outcome = Inr res" and "\<not> res_ok res" and "res_text res = Inr body"
  shows "\<exists>s' msg. fst (handleDelete ToString is_admin vid outcome s) = Some s'
           \<and> viagens s' = viagens s
           \<and> error s' = Some msg
           \<and> msg = js ''Erro ao excluir: '' @ decimal (res_status res) @ js '' '' @ body
           \<and> sublist (decimal (res_status res)) msg \<and> sublist body msg"
  using assms
  by (auto simp: handleDelete_def handleDelete_begin_def handleDelete_end_def sublist_append)

theorem handleDelete_failure_witness:
  "\<exists>s'. fst (handleDelete (\<lambda>v. js ''7'') True (JNum (Finite 7))
             (Inr \<lparr>res_ok = False, res_status = 403, res_text = Inr (js ''Forbidden''),
                   res_json = Inl (js ''not JSON'')\<rparr>)
             (initial_state\<lparr>viagens := [JObj 1 [(js ''id'', JNum (Finite 7))]]\<rparr>)) = Some s'
      \<and> viagens s' = [JObj 1 [(js ''id'', JNum (Finite 7))]]
      \<and> error s' = Some (js ''Erro ao excluir: 403 Forbidden'')"
  using handleDelete_failure [where is_admin = True
      and outcome = "Inr \<lparr>res_ok = False, res_status = 403,
            res_text = Inr (js ''Forbidden''), res_json = Inl (js ''not JSON'')\<rparr>"
      and res = "\<lparr>res_ok = False, res_status = 403, res_text = Inr (js ''Forbidden''),
            res_json = Inl (js ''not JSON'')\<rparr>"
      and body = "js ''Forbidden''" and ToString = "\<lambda>v. js ''7''"
      and vid = "JNum (Finite 7)"
      and s = "initial_state\<lparr>viagens := [JObj 1 [(js ''id'', JNum (Finite 7))]]\<rparr>"]
  by (auto simp add: initial_state_def decimal_403 js_def)

section \<open>Properties of the role set\<close>

lemma number_equal_refl: "number_equal True n n"
  by (cases n) simp_all

lemma number_equal_sym: "number_equal b x y \<Longrightarrow> number_equal b y x"
  by (cases x; cases y) (simp_all split: if_splits)

lemma number_equal_trans: "number_equal b x y \<Longrightarrow> number_equal b y z \<Longrightarrow> number_equal b x z"
  by (cases x; cases y; cases z) (simp_all split: if_splits)

lemma SameValueZero_refl: "SameValueZero x x"
  by (cases x) (simp_all add: SameValueZero_def number_equal_refl)

lemma SameValueZero_sym: "SameValueZero x y \<Longrightarrow> SameValueZero y x"
  by (cases x; cases y) (auto simp: SameValueZero_def dest: number_equal_sym)

lemma SameValueZero_trans: "SameValueZero x y \<Longrightarrow> SameValueZero y z \<Longrightarrow> SameValueZero x z"
  by (cases x; cases y; cases z) (auto simp: SameValueZero_def dest: number_equal_trans)

lemma SameValueZero_canonical_key: "SameValueZero (canonical_key x) v = SameValueZero x v"
proof (cases "x = JNum NegZero")
  case True
  then show ?thesis
    by (cases v) (auto simp: canonical_key_def SameValueZero_def elim: number_equal.elims)
next
  case False
  then show ?thesis by (simp add: canonical_key_def)
qed

lemma SameValueZero_canonical_key': "SameValueZero x (canonical_key v) = SameValueZero x v"
  using SameValueZero_canonical_key SameValueZero_sym by blast

lemma Set_has_add: "Set_has (Set_add s x) v \<longleftrightarrow> Set_has s v \<or> SameValueZero x v"
  by (auto simp: Set_add_def Set_has_def SameValueZero_canonical_key
      intro: SameValueZero_trans SameValueZero_sym)

lemma Set_has_foldl:
  "Set_has (foldl Set_add acc xs) v \<longleftrightarrow> Set_has acc v \<or> (\<exists>x \<in> set xs. SameValueZero x v)"
  by (induction xs arbitrary: acc) (auto simp: Set_has_add)

lemma Set_has_new_Set: "Set_has (new_Set xs) v \<longleftrightarrow> (\<exists>x \<in> set xs. SameValueZero x v)"
  using Set_has_foldl [of "[]" xs v] by (simp add: new_Set_def Set_has_def)

lemma set_foldl_Set_add:
  "set (foldl Set_add acc xs) \<subseteq> set acc \<union> canonical_key ` set xs"
proof (induction xs arbitrary: acc)
  case Nil
  then show ?case by simp
next
  case (Cons a xs)
  have "set (Set_add acc a) \<subseteq> insert (canonical_key a) (set acc)"
    by (auto simp: Set_add_def)
  with Cons [of "Set_add acc a"] show ?case by auto
qed

lemma set_new_Set: "set (new_Set xs) \<subseteq> canonical_key ` set xs"
  using set_foldl_Set_add [of "[]" xs] by (simp add: new_Set_def)

lemma unique_Set_add:
  "sorted_wrt (\<lambda>x y. \<not> SameValueZero x y) s \<Longrightarrow> sorted_wrt (\<lambda>x y. \<not> SameValueZero x y) (Set_add s v)"
  by (auto simp: Set_add_def Set_has_def sorted_wrt_append SameValueZero_canonical_key')

lemma unique_foldl:
  "sorted_wrt (\<lambda>x y. \<not> SameValueZero x y) acc \<Longrightarrow>
   sorted_wrt (\<lambda>x y. \<not> SameValueZero x y) (foldl Set_add acc xs)"
  by (induction xs arbitrary: acc) (simp_all add: unique_Set_add)

lemma unique_new_Set:
  "i < j \<Longrightarrow> j < length (new_Set xs) \<Longrightarrow> \<not> SameValueZero (new_Set xs ! i) (new_Set xs ! j)"
  using unique_foldl [of "[]" xs] by (simp add: new_Set_def sorted_wrt_iff_nth_less)

lemma get_prop_truthy: "truthy source \<Longrightarrow> get_prop source key \<noteq> None"
  by (cases source) simp_all

lemma set_extractRolesFromSource:
  "x \<in> set (extractRolesFromSource source) \<longleftrightarrow>
     truthy source \<and> (\<exists>key \<in> set ROLE_CLAIM_KEYS. \<exists>r vs.
        get_prop source key = Some (JArr r vs) \<and> x \<in> set vs)"
proof -
  have inner: "set (case get_prop source key of Some (JArr r vs) \<Rightarrow> vs | _ \<Rightarrow> [])
      = {x. \<exists>r vs. get_prop source key = Some (JArr r vs) \<and> x \<in> set vs}" for key
    by (cases "get_prop source key") (auto split: jsvalue.splits)
  show ?thesis
    by (auto simp: extractRolesFromSource_def inner)
qed

lemma Set_has_roles:
  "Set_has (roles payload user) v \<longleftrightarrow>
     (\<exists>x \<in> set (extractRolesFromSource payload). SameValueZero x v)
     \<or> (\<exists>x \<in> set (extractRolesFromSource user). SameValueZero x v)"
  by (simp add: roles_def Set_has_new_Set bex_Un)

lemma has_extractRolesFromSource:
  "(\<exists>x \<in> set (extractRolesFromSource source). SameValueZero x v) \<longleftrightarrow>
     truthy source \<and> (\<exists>key \<in> set ROLE_CLAIM_KEYS. \<exists>r vs.
        get_prop source key = Some (JArr r vs) \<and> (\<exists>x \<in> set vs. SameValueZero x v))"
  (is "?L \<longleftrightarrow> ?R")
proof
  assume ?L
  then obtain x where x: "x \<in> set (extractRolesFromSource source)" and v: "SameValueZero x v"
    by blast
  from x obtain key r vs where "truthy source" "key \<in> set ROLE_CLAIM_KEYS"
      "get_prop source key = Some (JArr r vs)" "x \<in> set vs"
    unfolding set_extractRolesFromSource by blast
  with v show ?R by blast
next
  assume ?R
  then obtain key r vs x where "truthy source" "key \<in> set ROLE_CLAIM_KEYS"
      "get_prop source key = Some (JArr r vs)" "x \<in> set vs" "SameValueZero x v"
    by blast
  then have "x \<in> set (extractRolesFromSource source)"
    unfolding set_extractRolesFromSource by blast
  with \<open>SameValueZero x v\<close> show ?L by blast
qed

lemma extractRolesFromSource_none:
  assumes "\<forall>key \<in> set ROLE_CLAIM_KEYS. \<forall>r vs. get_prop source key \<noteq> Some (JArr r vs)"
  shows "extractRolesFromSource source = []"
proof -
  have "set (extractRolesFromSource source) = {}"
    using assms unfolding set_eq_iff set_extractRolesFromSource by simp
  then show ?thesis by simp
qed

text \<open>
  Claim C2. For any two sources, a value is a member of the derived role set exactly
  when it is (up to SameValueZero, the comparison of \<open>Set\<close>) an element of an array
  found under one of the claim keys in a source that is not absent; every element of
  the set comes from such an array, with \<open>-0\<close> stored as \<open>+0\<close>; no two elements of
  the set are the same value;
  membership does not depend on the order of the two sources; a source that is absent,
  or has no array under any of the keys, contributes nothing.
\<close>

theorem roles_union:
  "(Set_has (roles payload user) v \<longleftrightarrow>
      (\<exists>source \<in> {payload, user}. truthy source \<and>
         (\<exists>key \<in> set ROLE_CLAIM_KEYS. \<exists>r vs.
            get_prop source key = Some (JArr r vs) \<and> (\<exists>x \<in> set vs. SameValueZero x v))))
   \<and> set (roles payload user)
        \<subseteq> canonical_key `
            (set (extractRolesFromSource payload) \<union> set (extractRolesFromSource user))
   \<and> (\<forall>i j. i < j \<and> j < length (roles payload user)
          \<longrightarrow> \<not> SameValueZero (roles payload user ! i) (roles payload user ! j))
   \<and> Set_has (roles payload user) v = Set_has (roles user payload) v
   \<and> (\<not> truthy source \<longrightarrow> extractRolesFromSource source = [])
   \<and> ((\<forall>key \<in> set ROLE_CLAIM_KEYS. \<forall>r vs. get_prop source key \<noteq> Some (JArr r vs))
        \<longrightarrow> extractRolesFromSource source = [])"
proof (intro conjI)
  show "Set_has (roles payload user) v \<longleftrightarrow>
      (\<exists>source \<in> {payload, user}. truthy source \<and>
         (\<exists>key \<in> set ROLE_CLAIM_KEYS. \<exists>r vs.
            get_prop source key = Some (JArr r vs) \<and> (\<exists>x \<in> set vs. SameValueZero x v)))"
    unfolding Set_has_roles has_extractRolesFromSource by simp
  show "set (roles payload user)
        \<subseteq> canonical_key `
            (set (extractRolesFromSource payload) \<union> set (extractRolesFromSource user))"
    using set_new_Set [of "extractRolesFromSource payload @ extractRolesFromSource user"]
    by (simp add: roles_def)
  show "\<forall>i j. i < j \<and> j < length (roles payload user)
          \<longrightarrow> \<not> SameValueZero (roles payload user ! i) (roles payload user ! j)"
    by (simp add: roles_def unique_new_Set)
  show "Set_has (roles payload user) v = Set_has (roles user payload) v"
    unfolding Set_has_roles by (rule disj_commute)
  show "\<not> truthy source \<longrightarrow> extractRolesFromSource source = []"
    by (simp add: extractRolesFromSource_def)
  show "(\<forall>key \<in> set ROLE_CLAIM_KEYS. \<forall>r vs. get_prop source key \<noteq> Some (JArr r vs))
        \<longrightarrow> extractRolesFromSource source = []"
    using extractRolesFromSource_none by blast
qed

lemma roles_token_user:
  "roles token_claims user_profile
     = [JStr (js ''admin''), JStr (js ''editor''), JStr (js ''viewer'')]"
  by (simp add: roles_def token_claims_def user_profile_def extractRolesFromSource_def
      ROLE_CLAIM_KEYS_def ROLE_NAMESPACE_def new_Set_def Set_add_def Set_has_def
      canonical_key_def SameValueZero_def js_def)

lemma roles_user_token:
  "roles user_profile token_claims
     = [JStr (js ''editor''), JStr (js ''viewer''), JStr (js ''admin'')]"
  by (simp add: roles_def token_claims_def user_profile_def extractRolesFromSource_def
      ROLE_CLAIM_KEYS_def ROLE_NAMESPACE_def new_Set_def Set_add_def Set_has_def
      canonical_key_def SameValueZero_def js_def)

lemma roles_zeros:
  "roles numeric_claims JUndefined = [JNum (Finite 0), JNum NaN]"
  by (simp add: roles_def numeric_claims_def extractRolesFromSource_def
      ROLE_CLAIM_KEYS_def ROLE_NAMESPACE_def new_Set_def Set_add_def Set_has_def
      canonical_key_def SameValueZero_def js_def)

lemma roles_null_user:
  "roles JNull user_profile = [JStr (js ''editor''), JStr (js ''viewer'')]"
  by (simp add: roles_def user_profile_def extractRolesFromSource_def
      ROLE_CLAIM_KEYS_def ROLE_NAMESPACE_def new_Set_def Set_add_def Set_has_def
      canonical_key_def SameValueZero_def js_def)

theorem roles_union_witness:
  "roles token_claims user_profile
     = [JStr (js ''admin''), JStr (js ''editor''), JStr (js ''viewer'')]
   \<and> roles numeric_claims JUndefined = [JNum (Finite 0), JNum NaN]
   \<and> Set_has (roles token_claims user_profile) (JStr (js ''viewer''))
   \<and> Set_has (roles user_profile token_claims) (JStr (js ''viewer''))
   \<and> \<not> SameValueZero (roles token_claims user_profile ! 0) (roles token_claims user_profile ! 1)
   \<and> extractRolesFromSource JNull = []
   \<and> extractRolesFromSource (JObj 5 [(js ''roles'', JStr (js ''admin''))]) = []"
  using
    roles_union [where payload = token_claims and user = user_profile
      and v = "JStr (js ''viewer'')" and source = JNull]
    roles_union [where payload = token_claims and user = user_profile
      and v = "JStr (js ''viewer'')"
      and source = "JObj 5 [(js ''roles'', JStr (js ''admin''))]"]
  by (simp add: roles_token_user roles_user_token roles_zeros Set_has_def SameValueZero_def
      ROLE_CLAIM_KEYS_def ROLE_NAMESPACE_def js_def)

section \<open>The administrator gate\<close>

lemma row_delete_render_row:
  "render_row a d v = Some r \<Longrightarrow> (row_delete r \<noteq> None) = a"
  by (auto simp: render_row_def split: option.splits if_splits)

lemma rendered_rows:
  "those (map (render_row a d) xs) = Some rows \<Longrightarrow>
     length rows = length xs \<and> (\<forall>r \<in> set rows. (row_delete r \<noteq> None) = a)"
proof (induction xs arbitrary: rows)
  case Nil
  then show ?case by simp
next
  case (Cons x xs)
  from Cons.prems obtain r z where r: "render_row a d x = Some r"
    and z: "those (map (render_row a d) xs) = Some z" and rows: "rows = r # z"
    by (auto split: option.splits)
  from row_delete_render_row [OF r] Cons.IH [OF z] rows show ?case by simp
qed

lemma length_map_filter_gate:
  "\<forall>r \<in> set rows. (f r \<noteq> None) = a \<Longrightarrow>
     length (List.map_filter f rows) = (if a then length rows else 0)"
  by (induction rows) (auto simp: List.map_filter_simps split: option.splits)

lemma column_headers_actions: "(actions_label \<in> set (column_headers a)) = a"
  by (simp add: column_headers_def actions_label_def js_def)

lemma render_list_gate:
  assumes "render_list a s = Some l"
  shows "(case l of Table headers rows \<Rightarrow>
             \<not> loading s \<and> viagens s \<noteq> [] \<and> headers = column_headers a
             \<and> length (List.map_filter row_delete rows) = (if a then length (viagens s) else 0)
         | _ \<Rightarrow> loading s \<or> viagens s = [])"
proof (cases "loading s \<or> viagens s = []")
  case True
  with assms show ?thesis by (auto simp: render_list_def split: if_splits)
next
  case False
  with assms obtain rows where rows: "those (map (render_row a (deletingId s)) (viagens s)) = Some rows"
    and l: "l = Table (column_headers a) rows"
    by (auto simp: render_list_def split: option.splits)
  from rendered_rows [OF rows] length_map_filter_gate [of rows row_delete a]
  have "length (List.map_filter row_delete rows) = (if a then length (viagens s) else 0)"
    by auto
  with False l show ?thesis by simp
qed

text \<open>
  Claim C3, as amended. In a render that succeeds, with \<open>isAdmin\<close> as the component
  derives it from the decoded token and the user: there is a delete button, one for
  every trip of the list, exactly when \<open>admin\<close> is a member of the derived role set
  and the table is shown, that is, the user is authenticated and the list is neither
  loading nor empty; the header of the actions column is present exactly then; the
  role pill is present exactly when \<open>admin\<close> is a member and the page is shown.
  Delete issues a request exactly when \<open>admin\<close> is a member; when it is not, delete
  issues no request and leaves the state as it was.
\<close>

theorem delete_gate:
  "(render JSON_parse auth_loading authenticated user s = Some v
      \<and> fst (decodeJwtPayload JSON_parse (token s)) = Inr payload
    \<longrightarrow> (delete_buttons v \<noteq> [])
           = (Set_has (roles payload user) ADMIN_ROLE \<and> \<not> auth_loading \<and> authenticated
              \<and> \<not> loading s \<and> viagens s \<noteq> [])
        \<and> (delete_buttons v \<noteq> [] \<longrightarrow> length (delete_buttons v) = length (viagens s))
        \<and> has_actions_header v
           = (Set_has (roles payload user) ADMIN_ROLE \<and> \<not> auth_loading \<and> authenticated
              \<and> \<not> loading s \<and> viagens s \<noteq> [])
        \<and> has_role_pill v
           = (Set_has (roles payload user) ADMIN_ROLE \<and> \<not> auth_loading \<and> authenticated))
   \<and> (snd (handleDelete ToString (isAdmin payload user) vid outcome s) \<noteq> [])
        = Set_has (roles payload user) ADMIN_ROLE
   \<and> (\<not> Set_has (roles payload user) ADMIN_ROLE
        \<longrightarrow> handleDelete ToString (isAdmin payload user) vid outcome s = (Some s, []))"
proof (intro conjI impI)
  assume a: "render JSON_parse auth_loading authenticated user s = Some v
      \<and> fst (decodeJwtPayload JSON_parse (token s)) = Inr payload"
  define adm where "adm = Set_has (roles payload user) ADMIN_ROLE"
  have adm: "isAdmin payload user = adm" by (simp add: adm_def isAdmin_def)
  consider "auth_loading" "v = PageStatus"
    | "\<not> auth_loading" "\<not> authenticated" "v = LoginContainer"
    | pv l where "\<not> auth_loading" "authenticated" "v = Page pv" "list_section pv = l"
        "render_list adm s = Some l" "(role_pill pv \<noteq> None) = adm"
    using a
    by (auto simp: render_def adm split: if_splits option.splits)
  then have "(delete_buttons v \<noteq> [])
           = (adm \<and> \<not> auth_loading \<and> authenticated \<and> \<not> loading s \<and> viagens s \<noteq> [])
        \<and> (delete_buttons v \<noteq> [] \<longrightarrow> length (delete_buttons v) = length (viagens s))
        \<and> has_actions_header v
           = (adm \<and> \<not> auth_loading \<and> authenticated \<and> \<not> loading s \<and> viagens s \<noteq> [])
        \<and> has_role_pill v = (adm \<and> \<not> auth_loading \<and> authenticated)"
  proof cases
    case 1
    then show ?thesis
      by (simp add: delete_buttons_def has_actions_header_def has_role_pill_def)
  next
    case 2
    then show ?thesis
      by (simp add: delete_buttons_def has_actions_header_def has_role_pill_def)
  next
    case 3
    from render_list_gate [OF 3(5)] 3(1-4,6) show ?thesis
      by (cases l)
         (auto simp: delete_buttons_def has_actions_header_def has_role_pill_def
            column_headers_actions)
  qed
  then show "(delete_buttons v \<noteq> [])
           = (Set_has (roles payload user) ADMIN_ROLE \<and> \<not> auth_loading \<and> authenticated
              \<and> \<not> loading s \<and> viagens s \<noteq> [])"
    and "delete_buttons v \<noteq> [] \<Longrightarrow> length (delete_buttons v) = length (viagens s)"
    and "has_actions_header v
           = (Set_has (roles payload user) ADMIN_ROLE \<and> \<not> auth_loading \<and> authenticated
              \<and> \<not> loading s \<and> viagens s \<noteq> [])"
    and "has_role_pill v
           = (Set_has (roles payload user) ADMIN_ROLE \<and> \<not> auth_loading \<and> authenticated)"
    by (simp_all add: adm_def)
next
  show "(snd (handleDelete ToString (isAdmin payload user) vid outcome s) \<noteq> [])
        = Set_has (roles payload user) ADMIN_ROLE"
    by (auto simp: isAdmin_def handleDelete_def handleDelete_begin_def)
next
  assume "\<not> Set_has (roles payload user) ADMIN_ROLE"
  then show "handleDelete ToString (isAdmin payload user) vid outcome s = (Some s, [])"
    by (simp add: isAdmin_def handleDelete_def handleDelete_begin_def)
qed

lemma decode_opaque: "decodeJwtPayload parse_example (js ''opaque'') = (Inr JNull, [])"
  by (simp add: decodeJwtPayload_def decodeJwtPayload_try_def element_at_def js_def)

lemma roles_admin_profile: "roles JNull admin_profile = [JStr (js ''admin'')]"
  by (simp add: roles_def admin_profile_def extractRolesFromSource_def
      ROLE_CLAIM_KEYS_def ROLE_NAMESPACE_def new_Set_def Set_add_def Set_has_def
      canonical_key_def SameValueZero_def js_def)

lemma isAdmin_admin_profile: "isAdmin JNull admin_profile"
  by (simp add: isAdmin_def roles_admin_profile Set_has_def SameValueZero_def ADMIN_ROLE_def)

lemma isAdmin_user_profile: "\<not> isAdmin JNull user_profile"
  by (simp add: isAdmin_def roles_null_user Set_has_def SameValueZero_def ADMIN_ROLE_def js_def)

lemma render_row_one_trip:
  "render_row a JNull one_trip = Some (trip_row (if a then Some excluir else None))"
  by (simp add: render_row_def one_trip_def trip_row_def excluir_def coalesce_def
      strict_equals_def js_def)

lemma render_page:
  assumes "decodeJwtPayload JSON_parse (token s) = (Inr payload, logged)"
    and "get_prop user (js ''picture'') = Some JUndefined"
    and "get_prop user (js ''name'') = Some n"
    and "get_prop user (js ''email'') = Some e"
    and "render_list (isAdmin payload user) s = Some trips"
    and "\<not> loading s" and "\<not> submitting s" and "error s = None"
  shows "render JSON_parse False True user s =
     Some (Page \<lparr>avatar = Inl JUndefined, user_name = n, user_email = e,
                 role_pill = (if isAdmin payload user then Some (js ''Administrador'')
                              else None),
                 reload_button = (False, js ''Recarregar''),
                 submit_button = (False, js ''Salvar viagem''),
                 error_box = None, counter = length (viagens s), list_section = trips\<rparr>)"
  using assms by (simp add: render_def)

lemma admin_profile_props:
  "get_prop admin_profile (js ''picture'') = Some JUndefined"
  "get_prop admin_profile (js ''name'') = Some (JStr (js ''Ana''))"
  "get_prop admin_profile (js ''email'') = Some (JStr (js ''ana@example.org''))"
  by (simp_all add: admin_profile_def js_def)

lemma user_profile_props:
  "get_prop user_profile (js ''picture'') = Some JUndefined"
  "get_prop user_profile (js ''name'') = Some (JStr (js ''Ana''))"
  "get_prop user_profile (js ''email'') = Some JUndefined"
  by (simp_all add: user_profile_def js_def)

lemma loaded_state_fields:
  "token loaded_state = js ''opaque''" "viagens loaded_state = [one_trip]"
  "\<not> loading loaded_state" "\<not> submitting loaded_state" "error loaded_state = None"
  "deletingId loaded_state = JNull"
  by (simp_all add: loaded_state_def initial_state_def)

lemma empty_state_fields:
  "token empty_state = js ''opaque''" "viagens empty_state = []"
  "\<not> loading empty_state" "\<not> submitting empty_state" "error empty_state = None"
  by (simp_all add: empty_state_def initial_state_def)

lemma render_list_loaded:
  "render_list a loaded_state
     = Some (Table (column_headers a) [trip_row (if a then Some excluir else None)])"
  by (simp add: render_list_def loaded_state_fields render_row_one_trip)

lemma render_admin_loaded:
  "render parse_example False True admin_profile loaded_state
     = Some (admin_page 1 (Table (column_headers True) [trip_row (Some excluir)]))"
  using render_page [where JSON_parse = parse_example and s = loaded_state
      and payload = JNull and logged = "[]" and user = admin_profile,
      OF _ admin_profile_props]
    render_list_loaded [of True]
  by (simp add: loaded_state_fields decode_opaque isAdmin_admin_profile admin_page_def)

lemma render_member_loaded:
  "render parse_example False True user_profile loaded_state
     = Some (member_page 1 (Table (column_headers False) [trip_row None]))"
  using render_page [where JSON_parse = parse_example and s = loaded_state
      and payload = JNull and logged = "[]" and user = user_profile,
      OF _ user_profile_props]
    render_list_loaded [of False]
  by (simp add: loaded_state_fields decode_opaque isAdmin_user_profile member_page_def)

lemma render_admin_empty:
  "render parse_example False True admin_profile empty_state
     = Some (admin_page 0 NenhumaViagem)"
  using render_page [where JSON_parse = parse_example and s = empty_state
      and payload = JNull and logged = "[]" and user = admin_profile
      and trips = NenhumaViagem, OF _ admin_profile_props]
  by (simp add: empty_state_fields decode_opaque isAdmin_admin_profile admin_page_def
      render_list_def)

theorem delete_gate_witness:
  "delete_buttons (admin_page 1 (Table (column_headers True) [trip_row (Some excluir)]))
     = [excluir]
   \<and> has_actions_header (admin_page 1 (Table (column_headers True) [trip_row (Some excluir)]))
   \<and> has_role_pill (admin_page 1 (Table (column_headers True) [trip_row (Some excluir)]))
   \<and> Set_has (roles JNull admin_profile) ADMIN_ROLE
   \<and> delete_buttons (member_page 1 (Table (column_headers False) [trip_row None])) = []
   \<and> \<not> has_actions_header (member_page 1 (Table (column_headers False) [trip_row None]))
   \<and> \<not> has_role_pill (member_page 1 (Table (column_headers False) [trip_row None]))
   \<and> \<not> Set_has (roles JNull user_profile) ADMIN_ROLE
   \<and> handleDelete (\<lambda>v. js ''1'') (isAdmin JNull user_profile) (JNum (Finite 1))
        (Inl (js ''offline'')) loaded_state
     = (Some loaded_state, [])"
  using
    delete_gate [where JSON_parse = parse_example and auth_loading = False
      and authenticated = True and user = admin_profile and s = loaded_state
      and payload = JNull
      and v = "admin_page 1 (Table (column_headers True) [trip_row (Some excluir)])"]
    delete_gate [where JSON_parse = parse_example and auth_loading = False
      and authenticated = True and user = user_profile and s = loaded_state
      and payload = JNull
      and v = "member_page 1 (Table (column_headers False) [trip_row None])"
      and ToString = "\<lambda>v. js ''1''" and vid = "JNum (Finite 1)"
      and outcome = "Inl (js ''offline'')"]
    render_admin_loaded render_member_loaded decode_opaque
    isAdmin_admin_profile isAdmin_user_profile
  by (simp add: loaded_state_fields isAdmin_def delete_buttons_def
      admin_page_def member_page_def trip_row_def List.map_filter_simps)

text \<open>
  Claim C3 as stated fails: an administrator whose list of trips is empty is shown
  the page, with the role pill, and no delete action on it.
\<close>

theorem delete_gate_counterexample:
  "fst (decodeJwtPayload parse_example (token empty_state)) = Inr JNull
   \<and> Set_has (roles JNull admin_profile) ADMIN_ROLE
   \<and> render parse_example False True admin_profile empty_state
       = Some (admin_page 0 NenhumaViagem)
   \<and> delete_buttons (admin_page 0 NenhumaViagem) = []
   \<and> \<not> has_actions_header (admin_page 0 NenhumaViagem)"
  using render_admin_empty decode_opaque isAdmin_admin_profile
  by (simp add: empty_state_fields isAdmin_def delete_buttons_def
      has_actions_header_def admin_page_def)

section \<open>Properties of the token decoder\<close>

lemma unat_code_unit: "k < 65536 \<Longrightarrow> unat (word_of_nat k :: code_unit) = k"
  by (simp add: unat_of_nat)

lemma code_unit_eq: "(c :: code_unit) = d \<longleftrightarrow> unat c = unat d"
  by (simp add: word_unat_eq_iff)

lemma split_str_nonempty: "split_str sep s \<noteq> []"
  by (induction s) (auto split: list.splits)

lemma split_str_prefix:
  "sep \<notin> set h \<Longrightarrow> split_str sep (h @ sep # rest) = h # split_str sep rest"
  by (induction h) (auto split: list.splits)

lemma payload_segment_three:
  assumes "0x2E \<notin> set header" and "0x2E \<notin> set payload"
  shows "element_at (split_str 0x2E (three_segments header payload signature)) 1 = Some payload"
proof -
  have "split_str 0x2E (three_segments header payload signature)
          = header # payload # split_str 0x2E signature"
    using assms by (simp add: three_segments_def split_str_prefix)
  then show ?thesis by (simp add: element_at_def)
qed

lemma normalize_map: "replace_all 0x5F 0x2F (replace_all 0x2D 0x2B s) = map normalize_char s"
  by (simp add: replace_all_def normalize_char_def Let_def)

lemma unat_base64url_char:
  "n < 64 \<Longrightarrow> unat (base64url_char n) =
     (if n < 26 then 65 + n else if n < 52 then 71 + n else if n < 62 then n - 4
      else if n = 62 then 45 else 95)"
  unfolding base64url_char_def
  by (subst unat_code_unit) auto

lemma unat_normalize_base64url_char:
  "n < 64 \<Longrightarrow> unat (normalize_char (base64url_char n)) =
     (if n < 26 then 65 + n else if n < 52 then 71 + n else if n < 62 then n - 4
      else if n = 62 then 43 else 47)"
  by (auto simp: normalize_char_def Let_def code_unit_eq unat_base64url_char)

lemma base64_value_normalize:
  "n < 64 \<Longrightarrow> base64_value (normalize_char (base64url_char n)) = Some n"
  by (auto simp: base64_value_def Let_def unat_normalize_base64url_char)

lemma normalize_not_whitespace:
  "n < 64 \<Longrightarrow> \<not> is_ascii_whitespace (normalize_char (base64url_char n))"
  by (auto simp: is_ascii_whitespace_def code_unit_eq unat_normalize_base64url_char split: if_splits)

lemma normalize_not_pad:
  "n < 64 \<Longrightarrow> normalize_char (base64url_char n) \<noteq> 0x3D"
  by (auto simp: code_unit_eq unat_normalize_base64url_char split: if_splits)

lemma base64url_char_not_dot:
  "n < 64 \<Longrightarrow> base64url_char n \<noteq> 0x2E"
  by (auto simp: code_unit_eq unat_base64url_char split: if_splits)

lemma sextets_bound:
  "\<forall>b \<in> set octets. b < 256 \<Longrightarrow> \<forall>n \<in> set (base64url_sextets octets). n < 64"
  by (induction octets rule: base64url_sextets.induct) (auto simp: less_mult_imp_div_less)

lemma sextets_length: "length (base64url_sextets octets) mod 4 \<noteq> 1"
  by (induction octets rule: base64url_sextets.induct) auto

lemma sextets_nonempty: "octets \<noteq> [] \<Longrightarrow> base64url_sextets octets \<noteq> []"
  by (induction octets rule: base64url_sextets.induct) auto

lemma sextets_roundtrip:
  "\<forall>b \<in> set octets. b < 256 \<Longrightarrow> sextets_to_bytes (base64url_sextets octets) = octets"
proof (induction octets rule: base64url_sextets.induct)
  case (1 x y z rest)
  have "x div 4 * 4 + (x mod 4 * 16 + y div 16) div 16 = x" using 1(2) by auto
  moreover have "(x mod 4 * 16 + y div 16) mod 16 * 16 + (y mod 16 * 4 + z div 64) div 4 = y"
    using 1(2) by auto
  moreover have "(y mod 16 * 4 + z div 64) mod 4 * 64 + z mod 64 = z" using 1(2) by auto
  ultimately show ?case using 1 by simp
next
  case (2 x y)
  have "x div 4 * 4 + (x mod 4 * 16 + y div 16) div 16 = x" using 2 by auto
  moreover have "(x mod 4 * 16 + y div 16) mod 16 * 16 + (y mod 16 * 4) div 4 = y"
    using 2 by auto
  ultimately show ?case by simp
next
  case (3 x)
  have "x div 4 * 4 + (x mod 4 * 16) div 16 = x" by auto
  then show ?case by simp
next
  case 4
  then show ?case by simp
qed


lemma those_map_Some:
  "\<forall>x \<in> set xs. f x = Some (g x) \<Longrightarrow> those (map f xs) = Some (map g xs)"
  by (induction xs) simp_all

lemma strip_padding_id: "(d \<noteq> [] \<Longrightarrow> last d \<noteq> 0x3D) \<Longrightarrow> strip_padding d = d"
  by (auto simp: strip_padding_def)

lemma atob_base64url:
  assumes "\<forall>b \<in> set octets. b < 256"
  shows "atob (replace_all 0x5F 0x2F (replace_all 0x2D 0x2B (base64url_encode octets)))
           = Some (map word_of_nat octets)"
proof -
  define ss where "ss = base64url_sextets octets"
  define d where "d = map (\<lambda>n. normalize_char (base64url_char n)) ss"
  have bound: "\<forall>n \<in> set ss. n < 64"
    using assms sextets_bound by (simp add: ss_def)
  have norm: "replace_all 0x5F 0x2F (replace_all 0x2D 0x2B (base64url_encode octets)) = d"
    by (simp add: normalize_map base64url_encode_def d_def ss_def)
  have filt: "filter (\<lambda>c. \<not> is_ascii_whitespace c) d = d"
    using bound by (simp add: d_def filter_id_conv normalize_not_whitespace)
  have "d \<noteq> [] \<Longrightarrow> last d \<noteq> 0x3D"
  proof -
    assume "d \<noteq> []"
    then have "last d \<in> set d" by simp
    then show ?thesis using bound by (auto simp: d_def normalize_not_pad)
  qed
  then have strip: "strip_padding d = d" by (rule strip_padding_id)
  have len: "length d mod 4 \<noteq> Suc 0"
    using sextets_length [of octets] by (simp add: d_def ss_def)
  have vals: "those (map base64_value d) = Some ss"
    using those_map_Some [of ss "\<lambda>n. base64_value (normalize_char (base64url_char n))" "\<lambda>n. n"]
      bound
    by (simp add: d_def base64_value_normalize comp_def)
  have "sextets_to_bytes ss = octets"
    using assms by (simp add: ss_def sextets_roundtrip)
  then show ?thesis
    unfolding norm atob_def by (simp add: filt strip len vals)
qed

lemma toString16_byte:
  "b < 256 \<Longrightarrow> padStart 2 0x30 (toString16 b) = [hex_digit (b div 16), hex_digit (b mod 16)]"
  by (subst toString16.simps, subst toString16.simps)
     (auto simp: padStart_def hex_digit_def less_mult_imp_div_less)

lemma percent_encoded_octets:
  "\<forall>b \<in> set octets. b < 256 \<Longrightarrow>
     percent_encoded (map word_of_nat octets) = concat (map escape octets)"
  by (induction octets) (simp_all add: percent_encoded_def escape_def unat_code_unit toString16_byte)

lemma hex_value_digit: "n < 16 \<Longrightarrow> hex_value (hex_digit n) = Some n"
  unfolding hex_value_def hex_digit_def Let_def
  by (subst unat_code_unit, (simp; fail))+ auto

lemma ParseHexOctet_escape:
  "b < 256 \<Longrightarrow> ParseHexOctet (hex_digit (b div 16)) (hex_digit (b mod 16)) = Some b"
  by (simp add: ParseHexOctet_def hex_value_digit less_mult_imp_div_less)

lemma Decode_lead:
  "b < 256 \<Longrightarrow> Decode octs 0 (escape b @ rest) =
     (if leading_ones b = 0 then map_option ((#) (word_of_nat b)) (Decode [] 0 rest)
      else if leading_ones b = 1 \<or> leading_ones b > 4 then None
      else Decode [b] (leading_ones b - 1) rest)"
  by (simp add: escape_def ParseHexOctet_escape)

lemma Decode_continuation:
  "b < 256 \<Longrightarrow> Decode octs (Suc j) (escape b @ rest) =
     (if j = 0
      then (case utf8_code_point (octs @ [b]) of
              None \<Rightarrow> None
            | Some V \<Rightarrow> map_option ((@) (UTF16EncodeCodePoint V)) (Decode [] 0 rest))
      else Decode (octs @ [b]) j rest)"
  by (simp add: escape_def ParseHexOctet_escape)


lemma utf8_encode_bound: "cp \<le> 0x10FFFF \<Longrightarrow> \<forall>b \<in> set (utf8_encode cp). b < 256"
  by (auto simp: utf8_encode_def)

lemma split3: "(cp::nat) div 0x1000 * 0x1000 + cp div 0x40 mod 0x40 * 0x40 + cp mod 0x40 = cp"
proof -
  have "cp div 0x1000 = cp div 0x40 div 0x40" by (simp add: div_mult2_eq)
  moreover have "cp div 0x40 div 0x40 * 0x40 + cp div 0x40 mod 0x40 = cp div 0x40"
    by (rule div_mult_mod_eq)
  moreover have "cp div 0x40 * 0x40 + cp mod 0x40 = cp"
    by (rule div_mult_mod_eq)
  ultimately show ?thesis by linarith
qed

lemma split4:
  "(cp::nat) div 0x40000 * 0x40000 + cp div 0x1000 mod 0x40 * 0x1000
      + cp div 0x40 mod 0x40 * 0x40 + cp mod 0x40 = cp"
proof -
  have "cp div 0x40000 = cp div 0x1000 div 0x40" by (simp add: div_mult2_eq)
  moreover have "cp div 0x1000 div 0x40 * 0x40 + cp div 0x1000 mod 0x40 = cp div 0x1000"
    by (rule div_mult_mod_eq)
  ultimately show ?thesis using split3 [of cp] by linarith
qed

lemma mod_offset: "k < m \<Longrightarrow> (q * m + k) mod m = (k::nat)"
  by simp

lemma m32: "k < 32 \<Longrightarrow> (192 + k) mod 32 = (k::nat)"
  using mod_offset [of k 32 6] by simp

lemma m16: "k < 16 \<Longrightarrow> (224 + k) mod 16 = (k::nat)"
  using mod_offset [of k 16 14] by simp

lemma m8: "k < 8 \<Longrightarrow> (240 + k) mod 8 = (k::nat)"
  using mod_offset [of k 8 30] by simp

lemma m64: "(128 + k mod 64) mod 64 = (k::nat) mod 64"
  using mod_offset [of "k mod 64" 64 2] by simp

lemma Decode_code_point:
  assumes "is_scalar_value cp"
  shows "Decode [] 0 (concat (map escape (utf8_encode cp)) @ rest)
           = map_option ((@) (UTF16EncodeCodePoint cp)) (Decode [] 0 rest)"
proof -
  consider "cp < 0x80" | "0x80 \<le> cp" "cp < 0x800" | "0x800 \<le> cp" "cp < 0x10000"
    | "0x10000 \<le> cp" "cp \<le> 0x10FFFF"
    using assms unfolding is_scalar_value_def by linarith
  then show ?thesis
  proof cases
    case 1
    then show ?thesis
      by (cases "Decode [] 0 rest")
         (simp_all add: utf8_encode_def Decode_lead leading_ones_def UTF16EncodeCodePoint_def)
  next
    case 2
    define b0 where "b0 = 0xC0 + cp div 0x40"
    define b1 where "b1 = 0x80 + cp mod 0x40"
    have enc: "utf8_encode cp = [b0, b1]" using 2 by (simp add: utf8_encode_def b0_def b1_def)
    have bounds: "b0 < 256" "b1 < 256" using 2 by (auto simp: b0_def b1_def)
    have lead: "leading_ones b0 = 2" using 2 by (auto simp: leading_ones_def b0_def)
    have "cp div 0x40 < 0x20" using 2 by simp
    then have "b0 mod 0x20 = cp div 0x40" unfolding b0_def by (simp add: m32 m16 m8)
    moreover have "b1 mod 0x40 = cp mod 0x40" by (simp add: b1_def m64)
    ultimately have V: "utf8_code_point [b0, b1] = Some cp"
      using 2 by (simp add: is_continuation_def b1_def)
    show ?thesis
      unfolding enc using bounds
      by (simp add: Decode_lead Decode_continuation lead V numeral_2_eq_2
            del: utf8_code_point.simps)
  next
    case 3
    define b0 where "b0 = 0xE0 + cp div 0x1000"
    define b1 where "b1 = 0x80 + cp div 0x40 mod 0x40"
    define b2 where "b2 = 0x80 + cp mod 0x40"
    have enc: "utf8_encode cp = [b0, b1, b2]"
      using 3 by (simp add: utf8_encode_def b0_def b1_def b2_def)
    have bounds: "b0 < 256" "b1 < 256" "b2 < 256" using 3 by (auto simp: b0_def b1_def b2_def)
    have lead: "leading_ones b0 = 3" using 3 by (auto simp: leading_ones_def b0_def)
    have "cp div 0x1000 < 0x10" using 3 by simp
    then have "b0 mod 0x10 = cp div 0x1000" unfolding b0_def by (simp add: m32 m16 m8)
    moreover have "b1 mod 0x40 = cp div 0x40 mod 0x40" by (simp add: b1_def m64)
    moreover have "b2 mod 0x40 = cp mod 0x40" by (simp add: b2_def m64)
    moreover have "\<not> (0xD800 \<le> cp \<and> cp \<le> 0xDFFF)"
      using assms by (auto simp: is_scalar_value_def)
    ultimately have V: "utf8_code_point [b0, b1, b2] = Some cp"
      using 3 split3 [of cp] by (simp add: is_continuation_def b1_def b2_def)
    show ?thesis
      unfolding enc using bounds
      by (simp add: Decode_lead Decode_continuation lead V numeral_3_eq_3
            del: utf8_code_point.simps)
  next
    case 4
    define b0 where "b0 = 0xF0 + cp div 0x40000"
    define b1 where "b1 = 0x80 + cp div 0x1000 mod 0x40"
    define b2 where "b2 = 0x80 + cp div 0x40 mod 0x40"
    define b3 where "b3 = 0x80 + cp mod 0x40"
    have enc: "utf8_encode cp = [b0, b1, b2, b3]"
      using 4 by (simp add: utf8_encode_def b0_def b1_def b2_def b3_def)
    have bounds: "b0 < 256" "b1 < 256" "b2 < 256" "b3 < 256"
      using 4 by (auto simp: b0_def b1_def b2_def b3_def)
    have lead: "leading_ones b0 = 4" using 4 by (auto simp: leading_ones_def b0_def)
    have "cp div 0x40000 < 0x08" using 4 by simp
    then have "b0 mod 0x08 = cp div 0x40000" unfolding b0_def by (simp add: m32 m16 m8)
    moreover have "b1 mod 0x40 = cp div 0x1000 mod 0x40" by (simp add: b1_def m64)
    moreover have "b2 mod 0x40 = cp div 0x40 mod 0x40" by (simp add: b2_def m64)
    moreover have "b3 mod 0x40 = cp mod 0x40" by (simp add: b3_def m64)
    ultimately have V: "utf8_code_point [b0, b1, b2, b3] = Some cp"
      using 4 split4 [of cp] by (simp add: is_continuation_def b1_def b2_def b3_def)
    show ?thesis
      unfolding enc using bounds
      by (simp add: Decode_lead Decode_continuation lead V eval_nat_numeral
            del: utf8_code_point.simps)
  qed
qed


lemma Decode_utf8:
  "\<forall>cp \<in> set cps. is_scalar_value cp \<Longrightarrow>
     Decode [] 0 (concat (map escape (utf8_bytes cps))) = Some (utf16_string cps)"
proof (induction cps)
  case Nil
  then show ?case by (simp add: utf8_bytes_def utf16_string_def)
next
  case (Cons cp cps)
  have "concat (map escape (utf8_bytes (cp # cps)))
          = concat (map escape (utf8_encode cp)) @ concat (map escape (utf8_bytes cps))"
    by (simp add: utf8_bytes_def)
  then show ?case
    using Cons by (simp add: Decode_code_point utf16_string_def)
qed

lemma utf8_bytes_bound:
  "\<forall>cp \<in> set cps. is_scalar_value cp \<Longrightarrow> \<forall>b \<in> set (utf8_bytes cps). b < 256"
proof -
  assume a: "\<forall>cp \<in> set cps. is_scalar_value cp"
  have "cp \<le> 0x10FFFF" if "cp \<in> set cps" for cp
    using a that unfolding is_scalar_value_def by fastforce
  then show ?thesis
    using utf8_encode_bound by (auto simp: utf8_bytes_def)
qed

lemma utf8_encode_nonempty: "utf8_encode cp \<noteq> []"
  by (simp add: utf8_encode_def)

lemma utf8_bytes_nonempty: "cps \<noteq> [] \<Longrightarrow> utf8_bytes cps \<noteq> []"
  by (cases cps) (simp_all add: utf8_bytes_def utf8_encode_nonempty)

lemma base64url_encode_no_dot:
  "\<forall>b \<in> set octets. b < 256 \<Longrightarrow> 0x2E \<notin> set (base64url_encode octets)"
  using sextets_bound [of octets] base64url_char_not_dot
  by (auto simp: base64url_encode_def)

lemma base64url_encode_nonempty: "octets \<noteq> [] \<Longrightarrow> base64url_encode octets \<noteq> []"
  by (simp add: base64url_encode_def sextets_nonempty)

text \<open>
  Claim C1. Take a token of three segments whose payload segment is the unpadded
  base64url encoding of the UTF-8 encoding of a non-empty text of Unicode scalar
  values, and let \<open>JSON.parse\<close> accept that text, held as a JavaScript string,
  and give the value \<open>v\<close>. Then \<open>decodeJwtPayload\<close> returns \<open>v\<close> and logs
  nothing. (The empty text is not JSON.)
\<close>

theorem decodeJwtPayload_well_formed:
  assumes "0x2E \<notin> set header" and "0x2E \<notin> set signature"
    and "json_text \<noteq> []" and "\<forall>cp \<in> set json_text. is_scalar_value cp"
    and "JSON_parse (utf16_string json_text) = Some v"
  shows "decodeJwtPayload JSON_parse
           (three_segments header (base64url_encode (utf8_bytes json_text)) signature)
         = (Inr v, [])"
proof -
  define octets where "octets = utf8_bytes json_text"
  define seg where "seg = base64url_encode octets"
  have bound: "\<forall>b \<in> set octets. b < 256"
    using assms(4) by (simp add: octets_def utf8_bytes_bound)
  have "octets \<noteq> []" using assms(3) by (simp add: octets_def utf8_bytes_nonempty)
  then have seg_ne: "seg \<noteq> []" by (simp add: seg_def base64url_encode_nonempty)
  have "0x2E \<notin> set seg" using bound by (simp add: seg_def base64url_encode_no_dot)
  then have "element_at (split_str 0x2E (three_segments header seg signature)) 1 = Some seg"
    using assms(1) by (rule payload_segment_three [rotated])
  then have pick: "element_at (split_str 0x2E (three_segments header seg signature)) (Suc 0)
      = Some seg"
    by simp
  have tok_ne: "three_segments header seg signature \<noteq> []"
    by (simp add: three_segments_def)
  have b64: "atob (replace_all 0x5F 0x2F (replace_all 0x2D 0x2B seg)) = Some (map word_of_nat octets)"
    using bound unfolding seg_def by (rule atob_base64url)
  have utf: "decodeURIComponent (percent_encoded (map word_of_nat octets))
               = Some (utf16_string json_text)"
    using bound assms(4)
    by (simp add: decodeURIComponent_def percent_encoded_octets octets_def Decode_utf8)
  show ?thesis
    unfolding seg_def [symmetric] octets_def [symmetric] decodeJwtPayload_def decodeJwtPayload_try_def
    using tok_ne seg_ne by (simp add: pick b64 utf assms(5))
qed

theorem decodeJwtPayload_well_formed_witness:
  "decodeJwtPayload parse_example (js ''eyJhbGciOiJIUzI1NiJ9.eyJuIjoiw6k_In0.c2ln'')
     = (Inr (JObj 1 [(js ''n'', JStr [233, 63])]), [])"
  using decodeJwtPayload_well_formed [where header = "js ''eyJhbGciOiJIUzI1NiJ9''"
      and signature = "js ''c2ln''"
      and json_text = "[123, 34, 110, 34, 58, 34, 233, 63, 34, 125]"
      and JSON_parse = parse_example and v = "JObj 1 [(js ''n'', JStr [233, 63])]"]
  by (simp add: three_segments_def base64url_encode_def base64url_char_def utf8_bytes_def
      utf8_encode_def utf16_string_def UTF16EncodeCodePoint_def is_scalar_value_def
      parse_example_def js_def)

lemma decodeJwtPayload_cases:
  "decodeJwtPayload JSON_parse tok =
     (if tok = [] \<or> payload_segment_missing tok then (Inr JNull, [])
      else if invalid_base64 tok
      then (Inr JNull, [(js ''Erro ao decodificar token JWT:'', InvalidCharacterError)])
      else if invalid_utf8 tok
      then (Inr JNull, [(js ''Erro ao decodificar token JWT:'', URIError)])
      else if invalid_json JSON_parse tok
      then (Inr JNull, [(js ''Erro ao decodificar token JWT:'', SyntaxError)])
      else (case payload_text tok of
              Some json \<Rightarrow> (case JSON_parse json of Some v \<Rightarrow> (Inr v, []) | None \<Rightarrow> (Inr JNull, []))
            | None \<Rightarrow> (Inr JNull, [])))"
  by (auto simp: decodeJwtPayload_def decodeJwtPayload_try_def payload_segment_missing_def
        invalid_base64_def invalid_utf8_def invalid_json_def payload_segment_def
        payload_octets_def payload_text_def Let_def
      split: option.splits)

lemma payload_segment_missing_empty: "payload_segment_missing []"
  by (simp add: payload_segment_missing_def payload_segment_def element_at_def)

lemma invalid_exclusive:
  "invalid_utf8 tok \<Longrightarrow> \<not> invalid_base64 tok"
  "invalid_json JSON_parse tok \<Longrightarrow> \<not> invalid_base64 tok"
  "invalid_json JSON_parse tok \<Longrightarrow> \<not> invalid_utf8 tok"
  by (auto simp: invalid_base64_def invalid_utf8_def invalid_json_def payload_text_def
      split: option.splits)

lemma invalid_not_missing:
  "invalid_base64 tok \<Longrightarrow> \<not> payload_segment_missing tok"
  "invalid_utf8 tok \<Longrightarrow> \<not> payload_segment_missing tok"
  "invalid_json JSON_parse tok \<Longrightarrow> \<not> payload_segment_missing tok"
  by (simp_all add: invalid_base64_def invalid_utf8_def invalid_json_def)

lemma payload_segment_missing_abc: "payload_segment_missing (js ''abc'')"
  by (simp add: payload_segment_missing_def payload_segment_def element_at_def js_def)

lemma invalid_base64_abc: "invalid_base64 (js ''a.b.c'')"
  by (simp add: invalid_base64_def payload_segment_missing_def payload_segment_def payload_octets_def
       element_at_def js_def atob_def replace_all_def strip_padding_def is_ascii_whitespace_def)

lemma invalid_utf8_example: "invalid_utf8 (js ''a.gA.c'')"
  by (simp add: invalid_utf8_def payload_segment_missing_def payload_segment_def payload_octets_def
       payload_text_def decodeURIComponent_def percent_encoded_def padStart_def toString16.simps
       hex_digit_def ParseHexOctet_def hex_value_def leading_ones_def
       element_at_def js_def atob_def replace_all_def strip_padding_def is_ascii_whitespace_def
       base64_value_def)

lemma payload_text_example:
  "payload_text (js ''a.eyJhIjoxfQ.c'') = Some (js ''{\"a\":1}'')"
  by (simp add: payload_segment_missing_def payload_segment_def payload_octets_def
       payload_text_def decodeURIComponent_def percent_encoded_def padStart_def toString16.simps
       hex_digit_def ParseHexOctet_def hex_value_def leading_ones_def
       element_at_def js_def atob_def replace_all_def strip_padding_def is_ascii_whitespace_def
       base64_value_def)

lemma invalid_json_example: "invalid_json parse_nothing (js ''a.eyJhIjoxfQ.c'')"
  using payload_text_example
  by (simp add: invalid_json_def parse_nothing_def payload_segment_missing_def payload_segment_def
       element_at_def js_def)

lemma split_str_no_separator: "sep \<notin> set s \<Longrightarrow> split_str sep s = [s]"
  by (induction s) auto

lemma payload_segment_missing_no_dot: "0x2E \<notin> set tok \<Longrightarrow> payload_segment_missing tok"
  by (simp add: payload_segment_missing_def payload_segment_def split_str_no_separator
      element_at_def)

lemma payload_text_not_json:
  "payload_text (js ''a.bm90IGpzb24.c'') = Some (js ''not json'')"
  by (simp add: payload_segment_def payload_octets_def
       payload_text_def decodeURIComponent_def percent_encoded_def padStart_def toString16.simps
       hex_digit_def ParseHexOctet_def hex_value_def leading_ones_def
       element_at_def js_def atob_def replace_all_def strip_padding_def is_ascii_whitespace_def
       base64_value_def)

lemma invalid_json_not_json: "invalid_json parse_example (js ''a.bm90IGpzb24.c'')"
  using payload_text_not_json
  by (simp add: invalid_json_def payload_segment_missing_def payload_segment_def
       element_at_def) (simp add: parse_example_def js_def)

lemma decode_two_segments:
  "decodeJwtPayload parse_example (js ''a.eyJhIjoxfQ'')
     = (Inr (JObj 2 [(js ''a'', JNum (Finite 1))]), [])"
  by (simp add: decodeJwtPayload_def decodeJwtPayload_try_def
       decodeURIComponent_def percent_encoded_def padStart_def toString16.simps
       hex_digit_def ParseHexOctet_def hex_value_def leading_ones_def
       element_at_def js_def atob_def replace_all_def strip_padding_def is_ascii_whitespace_def
       base64_value_def parse_example_def)

text \<open>
  Claim C4, as amended. For every string, \<open>decodeJwtPayload\<close> completes by returning
  a value: no exception reaches the caller. The value is \<open>null\<close> for the empty token,
  for a token without a dot, and whenever the payload segment, the second one, is
  missing or empty, is not base64, gives octets that are not UTF-8, or gives a text
  that \<open>JSON.parse\<close> rejects. Every other value it returns is what \<open>JSON.parse\<close>
  gives for the text of the payload segment. The number of segments is not looked at.
\<close>

theorem decodeJwtPayload_total:
  "(\<exists>v log. decodeJwtPayload JSON_parse tok = (Inr v, log))
   \<and> (tok = [] \<or> payload_segment_missing tok \<or> invalid_base64 tok \<or> invalid_utf8 tok
        \<or> invalid_json JSON_parse tok
      \<longrightarrow> fst (decodeJwtPayload JSON_parse tok) = Inr JNull)
   \<and> (0x2E \<notin> set tok \<longrightarrow> fst (decodeJwtPayload JSON_parse tok) = Inr JNull)
   \<and> (fst (decodeJwtPayload JSON_parse tok) = Inr w \<and> w \<noteq> JNull
      \<longrightarrow> (\<exists>json. payload_text tok = Some json \<and> JSON_parse json = Some w))"
  unfolding decodeJwtPayload_cases
  using payload_segment_missing_no_dot [of tok]
  by (auto split: option.splits)

theorem decodeJwtPayload_total_witness:
  "decodeJwtPayload parse_example [] = (Inr JNull, [])
   \<and> fst (decodeJwtPayload parse_example (js ''abc'')) = Inr JNull
   \<and> fst (decodeJwtPayload parse_example (js ''a.b.c'')) = Inr JNull
   \<and> fst (decodeJwtPayload parse_example (js ''a.gA.c'')) = Inr JNull
   \<and> fst (decodeJwtPayload parse_example (js ''a.bm90IGpzb24.c'')) = Inr JNull
   \<and> (\<exists>json. payload_text (js ''a.eyJhIjoxfQ'') = Some json
         \<and> parse_example json = Some (JObj 2 [(js ''a'', JNum (Finite 1))]))"
proof -
  have "fst (decodeJwtPayload parse_example []) = Inr JNull"
    using decodeJwtPayload_total [where tok = "[]" and JSON_parse = parse_example] by simp
  then have empty: "decodeJwtPayload parse_example [] = (Inr JNull, [])"
    by (simp add: decodeJwtPayload_def)
  have missing: "fst (decodeJwtPayload parse_example (js ''abc'')) = Inr JNull"
    using decodeJwtPayload_total [where tok = "js ''abc''" and JSON_parse = parse_example]
      payload_segment_missing_abc
    by simp
  have base64: "fst (decodeJwtPayload parse_example (js ''a.b.c'')) = Inr JNull"
    using decodeJwtPayload_total [where tok = "js ''a.b.c''" and JSON_parse = parse_example]
      invalid_base64_abc
    by simp
  have utf8: "fst (decodeJwtPayload parse_example (js ''a.gA.c'')) = Inr JNull"
    using decodeJwtPayload_total [where tok = "js ''a.gA.c''" and JSON_parse = parse_example]
      invalid_utf8_example
    by simp
  have json: "fst (decodeJwtPayload parse_example (js ''a.bm90IGpzb24.c'')) = Inr JNull"
    using decodeJwtPayload_total [where tok = "js ''a.bm90IGpzb24.c''"
        and JSON_parse = parse_example]
      invalid_json_not_json
    by simp
  have parsed: "\<exists>json. payload_text (js ''a.eyJhIjoxfQ'') = Some json
         \<and> parse_example json = Some (JObj 2 [(js ''a'', JNum (Finite 1))])"
    using decodeJwtPayload_total [where tok = "js ''a.eyJhIjoxfQ''"
        and JSON_parse = parse_example and w = "JObj 2 [(js ''a'', JNum (Finite 1))]"]
      decode_two_segments
    by simp
  from empty missing base64 utf8 json parsed show ?thesis by blast
qed

text \<open>
  Claim C4 as stated fails: the token \<open>a.eyJhIjoxfQ\<close> has two segments, so one is
  missing, and decoding it gives the object of its second segment, not \<open>null\<close>.
\<close>

theorem decodeJwtPayload_two_segments_counterexample:
  "segment_count (js ''a.eyJhIjoxfQ'') = 2
   \<and> decodeJwtPayload parse_example (js ''a.eyJhIjoxfQ'')
       = (Inr (JObj 2 [(js ''a'', JNum (Finite 1))]), [])"
  using decode_two_segments by (simp add: segment_count_def js_def)

text \<open>
  Claim C8, as amended. When the payload segment is present and not empty but is not
  base64, or its octets are not UTF-8, or its text is not JSON, \<open>decodeJwtPayload\<close>
  returns \<open>null\<close> and logs one diagnostic. When the token is empty or its payload
  segment is missing or empty, it returns \<open>null\<close> and logs nothing.
\<close>

theorem decodeJwtPayload_diagnostic:
  "(invalid_base64 tok \<or> invalid_utf8 tok \<or> invalid_json JSON_parse tok
      \<longrightarrow> tok \<noteq> [] \<and> fst (decodeJwtPayload JSON_parse tok) = Inr JNull
          \<and> length (snd (decodeJwtPayload JSON_parse tok)) = 1)
   \<and> (tok = [] \<or> payload_segment_missing tok
      \<longrightarrow> decodeJwtPayload JSON_parse tok = (Inr JNull, []))"
  unfolding decodeJwtPayload_cases
  by (auto dest: invalid_exclusive invalid_not_missing simp: payload_segment_missing_empty)

theorem decodeJwtPayload_diagnostic_witness:
  "length (snd (decodeJwtPayload parse_example (js ''a.b.c''))) = 1
   \<and> length (snd (decodeJwtPayload parse_example (js ''a.gA.c''))) = 1
   \<and> length (snd (decodeJwtPayload parse_nothing (js ''a.eyJhIjoxfQ.c''))) = 1
   \<and> decodeJwtPayload parse_example (js ''abc'') = (Inr JNull, [])"
  using
    decodeJwtPayload_diagnostic [where tok = "js ''abc''" and JSON_parse = parse_example]
    decodeJwtPayload_diagnostic [where tok = "js ''a.b.c''" and JSON_parse = parse_example]
    decodeJwtPayload_diagnostic [where tok = "js ''a.gA.c''" and JSON_parse = parse_example]
    decodeJwtPayload_diagnostic [where tok = "js ''a.eyJhIjoxfQ.c''"
      and JSON_parse = parse_nothing]
    payload_segment_missing_abc invalid_base64_abc invalid_utf8_example invalid_json_example
  by simp

text \<open>
  Claim C8 as stated fails: the token \<open>abc\<close> has no payload segment, and decoding
  it logs nothing.
\<close>

theorem decodeJwtPayload_silent_counterexample:
  "payload_segment_missing (js ''abc'')
   \<and> decodeJwtPayload parse_nothing (js ''abc'') = (Inr JNull, [])"
  by (simp add: payload_segment_missing_def payload_segment_def decodeJwtPayload_def
      decodeJwtPayload_try_def element_at_def js_def)

section \<open>Properties of the effect on the authentication status\<close>

text \<open>
  The effect, run while unauthenticated, leaves the token and the list empty, whatever
  the state was. So both are empty when the component mounts unauthenticated, and
  right after the status changes from authenticated to unauthenticated.
\<close>

lemma effect_resets:
  "(token (fst (auth_effect False s)) = [] \<and> viagens (fst (auth_effect False s)) = [])
   \<and> token (app (mount False)) = [] \<and> viagens (app (mount False)) = []
   \<and> (isAuthenticated c \<and> step (AuthStatus False) c = Some c'
        \<longrightarrow> \<not> isAuthenticated c' \<and> token (app c') = [] \<and> viagens (app c') = [])"
  by (auto simp: auth_effect_def mount_def run_effect_def initial_state_def)

text \<open>
  The token half of the invariant holds between events: a token that arrives while
  unauthenticated changes a dependency of the effect, which runs again and empties it.
\<close>

lemma token_run_effect:
  "\<not> isAuthenticated c \<Longrightarrow> token (app (run_effect c)) = []"
  "isAuthenticated (run_effect c) = isAuthenticated c"
  "isAuthenticated c \<Longrightarrow> token (app (run_effect c)) = token (app c)"
  by (simp_all add: run_effect_def auth_effect_def)

lemma token_fetchViagens_begin: "token (fst (fetchViagens_begin p s)) = token s"
  by (simp add: fetchViagens_begin_def Let_def)

lemma token_fetchViagens_end: "token (fetchViagens_end outcome s) = token s"
  by (simp add: fetchViagens_end_def split: sum.splits)

lemma step_token_empty:
  assumes "step e c = Some c'" and "\<not> isAuthenticated c \<longrightarrow> token (app c) = []"
  shows "\<not> isAuthenticated c' \<longrightarrow> token (app c') = []"
proof (cases e)
  case (AuthStatus b)
  show ?thesis
  proof (cases "b = isAuthenticated c")
    case True
    with assms AuthStatus show ?thesis by simp
  next
    case False
    with assms(1) AuthStatus have c': "c' = run_effect (c\<lparr>isAuthenticated := b\<rparr>)"
      by simp
    show ?thesis
      using token_run_effect(1,2) [of "c\<lparr>isAuthenticated := b\<rparr>"] by (simp add: c')
  qed
next
  case (TokenSettled i outcome)
  obtain s1 accessToken logged where r: "refreshToken outcome (app c) = (s1, accessToken, logged)"
    by (cases "refreshToken outcome (app c)") auto
  obtain s2 req where f:
    "(if \<not> refreshing c ! i \<and> accessToken \<noteq> []
      then fetchViagens_begin (Some accessToken) s1 else (s1, None)) = (s2, req)"
    by (cases "if \<not> refreshing c ! i \<and> accessToken \<noteq> []
      then fetchViagens_begin (Some accessToken) s1 else (s1, None)") auto
  define c2 where "c2 = c\<lparr>app := s2,
      refreshing := take i (refreshing c) @ drop (Suc i) (refreshing c),
      listing := listing c + (if req = None then 0 else 1)\<rparr>"
  have c': "c' = (if token s2 \<noteq> token (app c) then run_effect c2 else c2)"
    using assms(1) TokenSettled r f
    by (auto simp: c2_def Let_def split: if_splits)
  have auth: "isAuthenticated c2 = isAuthenticated c" and app: "app c2 = s2"
    by (simp_all add: c2_def)
  show ?thesis
  proof (cases "token s2 \<noteq> token (app c)")
    case True
    then show ?thesis using c' auth by (simp add: token_run_effect)
  next
    case False
    then show ?thesis using c' auth app assms(2) by simp
  qed
next
  case (ListSettled outcome)
  with assms show ?thesis by (auto simp: token_fetchViagens_end split: if_splits)
qed

lemma token_empty_when_unauthenticated:
  assumes "run es (mount b) = Some c" and "\<not> isAuthenticated c"
  shows "token (app c) = []"
proof -
  have inv: "run es c0 = Some c \<Longrightarrow> (\<not> isAuthenticated c0 \<longrightarrow> token (app c0) = [])
      \<Longrightarrow> \<not> isAuthenticated c \<longrightarrow> token (app c) = []" for c0
  proof (induction es arbitrary: c0)
    case Nil
    then show ?case by simp
  next
    case (Cons e es)
    from Cons.prems(1) obtain c1 where s: "step e c0 = Some c1" and r: "run es c1 = Some c"
      by (auto split: option.splits)
    from step_token_empty [OF s Cons.prems(2)] Cons.IH [OF r] show ?case by simp
  qed
  have "\<not> isAuthenticated (mount b) \<longrightarrow> token (app (mount b)) = []"
    by (simp add: mount_def token_run_effect)
  with inv [OF assms(1)] assms(2) show ?thesis by simp
qed

text \<open>
  Claim C9. Whenever the status is or becomes unauthenticated the effect empties the
  token and the list (\<open>effect_resets\<close>), and the token is empty in every
  unauthenticated state between events (\<open>token_empty_when_unauthenticated\<close>). The
  list is not. In the session \<open>logout_while_loading\<close> the component mounts
  authenticated, the token arrives and the list request starts; the status becomes
  unauthenticated, and the effect leaves the list empty; then the answer to the list
  request arrives, and the component, still unauthenticated, holds one trip.
\<close>

theorem logout_while_loading_stale_list:
  "map_option (\<lambda>c. (isAuthenticated c, token (app c), viagens (app c), listing c))
       (run (take 2 logout_while_loading) (mount True)) = Some (False, [], [], 1)
   \<and> map_option (\<lambda>c. (isAuthenticated c, token (app c), viagens (app c), listing c))
       (run logout_while_loading (mount True)) = Some (False, [], [one_trip], 0)"
  by (simp add: logout_while_loading_def mount_def run_effect_def auth_effect_def
      initial_state_def refreshToken_def fetchViagens_begin_def fetchViagens_end_def js_def
      Let_def)

end
